theory Spec2Isabelle
  imports Complex_Main "HOL-Library.Product_Lexorder"
begin

section \<open>Python values, exceptions and outcomes\<close>

text \<open>
  The application is Python (Flask routes in \<^verbatim>\<open>routes.py\<close>, the catalogue client in
  \<^verbatim>\<open>tmdb.py\<close>). A call either returns a value, raises an exception, or blocks for ever
  (a network read with no timeout on a peer that never answers). Strings are ASCII
  strings: \<^verbatim>\<open>str.lower\<close> and \<^verbatim>\<open>int\<close> are modelled on ASCII characters only.
\<close>

datatype request_failure = ConnectionError | Timeout | HTTPError | JSONDecodeError

datatype py_error =
    ValueError
  | IndexError
  | KeyError
  | TypeError
  | AttributeError
  | RequestException request_failure
  | BuildError
  | DuplicateKeyError

datatype 'a result = Returns 'a | Raises py_error | Hangs

fun bind :: "'a result \<Rightarrow> ('a \<Rightarrow> 'b result) \<Rightarrow> 'b result" where
  "bind (Returns a) f = f a"
| "bind (Raises e) f = Raises e"
| "bind Hangs f = Hangs"

text \<open>\<^verbatim>\<open>try: body  except (E1, E2): return d\<close>: the handler replaces the listed exceptions only.\<close>

fun except :: "'a result \<Rightarrow> (py_error \<Rightarrow> bool) \<Rightarrow> 'a \<Rightarrow> 'a result" where
  "except (Returns a) handled d = Returns a"
| "except (Raises e) handled d = (if handled e then Returns d else Raises e)"
| "except Hangs handled d = Hangs"

text \<open>The same two combinators for code that also threads a state (the requests issued so far).\<close>

fun bind_s :: "'a result \<times> 's \<Rightarrow> ('a \<Rightarrow> 's \<Rightarrow> 'b result \<times> 's) \<Rightarrow> 'b result \<times> 's" where
  "bind_s (Returns a, s) f = f a s"
| "bind_s (Raises e, s) f = (Raises e, s)"
| "bind_s (Hangs, s) f = (Hangs, s)"

fun except_s :: "'a result \<times> 's \<Rightarrow> (py_error \<Rightarrow> bool) \<Rightarrow> 'a \<Rightarrow> 'a result \<times> 's" where
  "except_s (r, s) handled d = (except r handled d, s)"

text \<open>
  A loop or comprehension that builds a list from the items of a list, with a body that
  may raise: the items are taken in order and the first exception ends the loop.
\<close>

fun for_each :: "('a \<Rightarrow> 'b result) \<Rightarrow> 'a list \<Rightarrow> 'b list result" where
  "for_each f [] = Returns []"
| "for_each f (x # xs) = bind (f x) (\<lambda>y. bind (for_each f xs) (\<lambda>ys. Returns (y # ys)))"

fun is_RequestException :: "py_error \<Rightarrow> bool" where
  "is_RequestException (RequestException k) = True"
| "is_RequestException e = False"

text \<open>\<^verbatim>\<open>except Exception\<close> handles every exception of the model.\<close>

definition is_Exception :: "py_error \<Rightarrow> bool" where
  "is_Exception e = True"

fun is_ValueError_or_IndexError :: "py_error \<Rightarrow> bool" where
  "is_ValueError_or_IndexError ValueError = True"
| "is_ValueError_or_IndexError IndexError = True"
| "is_ValueError_or_IndexError e = False"

subsection \<open>Strings: \<^verbatim>\<open>lower\<close>, \<^verbatim>\<open>split\<close>, \<^verbatim>\<open>int\<close>\<close>

definition code :: "char \<Rightarrow> nat" where
  "code c = of_char c"

definition lower_char :: "char \<Rightarrow> char" where
  "lower_char c = (if 65 \<le> code c \<and> code c \<le> 90 then char_of (code c + 32) else c)"

definition lower :: "string \<Rightarrow> string" where
  "lower s = map lower_char s"

text \<open>
  The whitespace \<^verbatim>\<open>int\<close> skips around the digits of an ASCII string: tab, line feed,
  vertical tab, form feed, carriage return and space. (The separators 28 to 31, which
  \<^verbatim>\<open>str.isspace\<close> accepts, are not skipped.)
\<close>

definition is_space :: "char \<Rightarrow> bool" where
  "is_space c = ((9 \<le> code c \<and> code c \<le> 13) \<or> code c = 32)"

definition is_digit :: "char \<Rightarrow> bool" where
  "is_digit c = (48 \<le> code c \<and> code c \<le> 57)"

definition strip :: "string \<Rightarrow> string" where
  "strip s = rev (dropWhile is_space (rev (dropWhile is_space s)))"

text \<open>\<^verbatim>\<open>s.split(sep)\<close> for a one-character separator: never an empty list.\<close>

fun split :: "string \<Rightarrow> char \<Rightarrow> string list" where
  "split [] sep = [[]]"
| "split (c # cs) sep =
     (if c = sep then [] # split cs sep
      else (case split cs sep of
              [] \<Rightarrow> [[c]]
            | seg # rest \<Rightarrow> (c # seg) # rest))"

text \<open>\<^verbatim>\<open>xs[i]\<close> for a non-negative literal index.\<close>

definition index :: "'a list \<Rightarrow> nat \<Rightarrow> 'a result" where
  "index xs i = (if i < length xs then Returns (xs ! i) else Raises IndexError)"

text \<open>
  \<^verbatim>\<open>int(s)\<close> on a string, base 10: surrounding whitespace is dropped, one sign is allowed,
  then decimal digits, single underscores allowed between digits. Anything else is a
  \<^verbatim>\<open>ValueError\<close>, and so is a literal of more than 4300 digits (CPython's default
  \<^verbatim>\<open>int_max_str_digits\<close>).
\<close>

fun valid_digits :: "string \<Rightarrow> bool" where
  "valid_digits [] = False"
| "valid_digits [c] = is_digit c"
| "valid_digits (c # d # cs) =
     (is_digit c \<and> (if d = CHR ''_'' then cs \<noteq> [] \<and> valid_digits cs else valid_digits (d # cs)))"

definition digit_value :: "char \<Rightarrow> int" where
  "digit_value c = int (code c) - 48"

definition decimal_value :: "string \<Rightarrow> int" where
  "decimal_value s = foldl (\<lambda>acc c. 10 * acc + digit_value c) 0 (filter is_digit s)"

definition int_of_str :: "string \<Rightarrow> int result" where
  "int_of_str s =
     (let t = strip s;
          negative = (t \<noteq> [] \<and> hd t = CHR ''-'');
          body = (if t \<noteq> [] \<and> (hd t = CHR ''-'' \<or> hd t = CHR ''+'') then tl t else t)
      in if valid_digits body \<and> length (filter is_digit body) \<le> 4300
         then Returns (if negative then - decimal_value body else decimal_value body)
         else Raises ValueError)"

text \<open>\<^verbatim>\<open>int(x)\<close> where \<^verbatim>\<open>x\<close> may be \<^verbatim>\<open>None\<close>: \<^verbatim>\<open>int(None)\<close> is a \<^verbatim>\<open>TypeError\<close>.\<close>

definition int_of_optional :: "string option \<Rightarrow> int result" where
  "int_of_optional x = (case x of None \<Rightarrow> Raises TypeError | Some s \<Rightarrow> int_of_str s)"

text \<open>Truthiness of an \<^verbatim>\<open>Optional[str]\<close>: \<^verbatim>\<open>None\<close> and the empty string are false.\<close>

fun truthy :: "string option \<Rightarrow> bool" where
  "truthy None = False"
| "truthy (Some s) = (s \<noteq> [])"

subsection \<open>Values decoded from JSON\<close>

text \<open>
  What \<^verbatim>\<open>response.json()\<close> returns, and what the fields of the dataclasses hold: Python
  checks no annotation, so a field holds whatever value the catalogue sent. \<open>JNull\<close> is
  \<^verbatim>\<open>None\<close>, \<open>JArr\<close> a list, \<open>JObj\<close> a dict as the association list of its items (the keys
  are distinct). A float stands for the real number it denotes.
\<close>

datatype json =
    JNull
  | JBool bool
  | JInt int
  | JFloat real
  | JStr string
  | JArr "json list"
  | JObj "(string \<times> json) list"

fun truthy_value :: "json \<Rightarrow> bool" where
  "truthy_value JNull = False"
| "truthy_value (JBool b) = b"
| "truthy_value (JInt i) = (i \<noteq> 0)"
| "truthy_value (JFloat x) = (x \<noteq> 0)"
| "truthy_value (JStr s) = (s \<noteq> [])"
| "truthy_value (JArr xs) = (xs \<noteq> [])"
| "truthy_value (JObj kvs) = (kvs \<noteq> [])"

text \<open>
  \<^verbatim>\<open>x.get(key, default)\<close>: only a dict has the method, every other value raises
  \<^verbatim>\<open>AttributeError\<close>; on a dict it never raises. Several reads of one value therefore
  fail at the first read or not at all: \<open>as_dict\<close> is that first read, \<open>lookup\<close> the reads
  of a value known to be a dict.
\<close>

definition as_dict :: "json \<Rightarrow> (string \<times> json) list result" where
  "as_dict x = (case x of JObj kvs \<Rightarrow> Returns kvs | _ \<Rightarrow> Raises AttributeError)"

definition lookup :: "(string \<times> json) list \<Rightarrow> string \<Rightarrow> json \<Rightarrow> json" where
  "lookup kvs k dflt = (case map_of kvs k of None \<Rightarrow> dflt | Some v \<Rightarrow> v)"

definition dict_get :: "json \<Rightarrow> string \<Rightarrow> json \<Rightarrow> json result" where
  "dict_get x k dflt = bind (as_dict x) (\<lambda>kvs. Returns (lookup kvs k dflt))"

text \<open>
  \<^verbatim>\<open>x[key]\<close> with a string key: \<^verbatim>\<open>KeyError\<close> on a dict without the key, \<^verbatim>\<open>TypeError\<close> on every
  value that is not a dict.
\<close>

definition subscript :: "json \<Rightarrow> string \<Rightarrow> json result" where
  "subscript x k =
     (case x of
        JObj kvs \<Rightarrow> (case map_of kvs k of None \<Rightarrow> Raises KeyError | Some v \<Rightarrow> Returns v)
      | _ \<Rightarrow> Raises TypeError)"

text \<open>
  \<^verbatim>\<open>for item in x\<close>: the items of a list, the characters of a string, the keys of a dict;
  \<^verbatim>\<open>None\<close>, a number or a boolean is not iterable.
\<close>

definition iterate :: "json \<Rightarrow> json list result" where
  "iterate x =
     (case x of
        JArr xs \<Rightarrow> Returns xs
      | JStr s \<Rightarrow> Returns (map (\<lambda>c. JStr [c]) s)
      | JObj kvs \<Rightarrow> Returns (map (\<lambda>kv. JStr (fst kv)) kvs)
      | _ \<Rightarrow> Raises TypeError)"

text \<open>
  \<^verbatim>\<open>x[:n]\<close>: a prefix of a list or of a string, a \<^verbatim>\<open>TypeError\<close> on every other value (for a
  dict this is the exception of Python up to 3.11; later versions raise \<^verbatim>\<open>KeyError\<close>).
\<close>

definition slice_to :: "json \<Rightarrow> nat \<Rightarrow> json result" where
  "slice_to x n =
     (case x of
        JArr xs \<Rightarrow> Returns (JArr (take n xs))
      | JStr s \<Rightarrow> Returns (JStr (take n s))
      | _ \<Rightarrow> Raises TypeError)"

text \<open>
  An f-string is kept as its template: the literal pieces and the interpolated values, in
  order. What \<^verbatim>\<open>str\<close> makes of an interpolated value is not computed. The empty string is
  the empty template; a template is true when some piece of it is not empty (\<^verbatim>\<open>str\<close> of a
  value is empty for the empty string only).
\<close>

datatype piece = Lit string | Fmt json

type_synonym fstring = "piece list"

fun empty_piece :: "piece \<Rightarrow> bool" where
  "empty_piece (Lit s) = (s = [])"
| "empty_piece (Fmt v) = (v = JStr [])"

fun truthy_fstring :: "fstring option \<Rightarrow> bool" where
  "truthy_fstring None = False"
| "truthy_fstring (Some f) = (\<not> list_all empty_piece f)"

section \<open>The catalogue's records (\<^verbatim>\<open>tmdb.py\<close>)\<close>

text \<open>
  The three dataclasses. Field names carry the record's prefix (\<open>tm_\<close>, \<open>cm_\<close>, \<open>tv_\<close>)
  because the records share names. \<open>tm_genres\<close> is the list a comprehension builds (or
  the empty default); every other field is the value read from the catalogue's answer.
\<close>

record TMDBMovie =
  tm_id :: json
  tm_title :: json
  tm_overview :: json
  tm_poster_path :: json
  tm_backdrop_path :: json
  tm_release_date :: json
  tm_vote_average :: json
  tm_vote_count :: json
  tm_genre_ids :: json
  tm_genres :: "json list"
  tm_runtime :: json
  tm_tagline :: json

record TMDBCastMember =
  cm_id :: json
  cm_name :: json
  cm_character :: json
  cm_profile_path :: json

record TMDBVideo =
  tv_id :: json
  tv_key :: json
  tv_name :: json
  tv_site :: json
  tv_type :: json

definition TMDB_BASE_URL :: string where
  "TMDB_BASE_URL = ''https://api.themoviedb.org/3''"

definition TMDB_IMAGE_BASE_URL :: string where
  "TMDB_IMAGE_BASE_URL = ''https://image.tmdb.org/t/p''"

definition poster_url :: "TMDBMovie \<Rightarrow> fstring option" where
  "poster_url m =
     (if truthy_value (tm_poster_path m)
      then Some [Lit TMDB_IMAGE_BASE_URL, Lit ''/w500'', Fmt (tm_poster_path m)]
      else None)"

definition backdrop_url :: "TMDBMovie \<Rightarrow> fstring option" where
  "backdrop_url m =
     (if truthy_value (tm_backdrop_path m)
      then Some [Lit TMDB_IMAGE_BASE_URL, Lit ''/original'', Fmt (tm_backdrop_path m)]
      else None)"

text \<open>
  \<^verbatim>\<open>TMDBMovie.year\<close>: the body of the \<^verbatim>\<open>try\<close> is \<^verbatim>\<open>int(self.release_date.split("-")[0])\<close>,
  its handler catches \<^verbatim>\<open>ValueError\<close> and \<^verbatim>\<open>IndexError\<close> and returns 0. Only a string has
  \<^verbatim>\<open>split\<close>: a true release date of another type raises \<^verbatim>\<open>AttributeError\<close>, which the
  handler does not catch.
\<close>

definition split_value :: "json \<Rightarrow> char \<Rightarrow> string list result" where
  "split_value x sep = (case x of JStr s \<Rightarrow> Returns (split s sep) | _ \<Rightarrow> Raises AttributeError)"

definition year :: "TMDBMovie \<Rightarrow> int result" where
  "year m =
     (if truthy_value (tm_release_date m)
      then except
             (bind (split_value (tm_release_date m) CHR ''-'')
                (\<lambda>parts. bind (index parts 0) int_of_str))
             is_ValueError_or_IndexError 0
      else Returns 0)"

definition profile_url :: "TMDBCastMember \<Rightarrow> fstring option" where
  "profile_url c =
     (if truthy_value (cm_profile_path c)
      then Some [Lit TMDB_IMAGE_BASE_URL, Lit ''/w185'', Fmt (cm_profile_path c)]
      else None)"

text \<open>
  \<^verbatim>\<open>TMDBVideo.youtube_url\<close>: \<^verbatim>\<open>self.site.lower()\<close> raises \<^verbatim>\<open>AttributeError\<close> when the site is
  not a string.
\<close>

definition youtube_url :: "TMDBVideo \<Rightarrow> fstring option result" where
  "youtube_url v =
     (case tv_site v of
        JStr site \<Rightarrow>
          Returns (if lower site = ''youtube''
                   then Some [Lit ''https://www.youtube.com/embed/'', Fmt (tv_key v)]
                   else None)
      | _ \<Rightarrow> Raises AttributeError)"

section \<open>The catalogue's HTTP interface\<close>

text \<open>
  A request as \<^verbatim>\<open>requests.get(url, params=..., timeout=...)\<close> issues it; \<open>rq_timeout\<close> is
  \<open>None\<close> when the call passes no timeout (the library then waits without bound).
\<close>

record request =
  rq_url :: fstring
  rq_params :: "(string \<times> json) list"
  rq_timeout :: "nat option"

text \<open>
  What the network does with one request: no connection, no answer at all, or a response
  with a status code and a body (\<open>None\<close>: the body is not JSON). \<^verbatim>\<open>requests.get\<close> raises
  \<^verbatim>\<open>ConnectionError\<close> on the first, and on the second \<^verbatim>\<open>Timeout\<close> once the timeout it was
  given has passed; \<^verbatim>\<open>raise_for_status\<close> raises \<^verbatim>\<open>HTTPError\<close> on a status from 400 to 599;
  \<^verbatim>\<open>response.json()\<close> raises the library's \<^verbatim>\<open>JSONDecodeError\<close>. All four are subclasses of
  \<^verbatim>\<open>requests.RequestException\<close> (the last one since requests 2.27).
\<close>

datatype http_reply = NoConnection | NoReply | Reply nat "json option"

type_synonym http_response = "nat \<times> json option"

text \<open>
  The environment of the process: the variable \<^verbatim>\<open>TMDB_API_KEY\<close> and the network, whose
  answer may depend on every request made before. The list of requests issued so far is
  the state the client threads.
\<close>

record env =
  api_key :: "string option"
  net :: "request list \<Rightarrow> request \<Rightarrow> http_reply"

definition get_api_key :: "env \<Rightarrow> string result" where
  "get_api_key E =
     (case api_key E of
        None \<Rightarrow> Raises ValueError
      | Some k \<Rightarrow> if k = [] then Raises ValueError else Returns k)"

definition requests_get :: "env \<Rightarrow> request \<Rightarrow> request list \<Rightarrow> http_response result \<times> request list" where
  "requests_get E rq reqs =
     ((case net E reqs rq of
         NoConnection \<Rightarrow> Raises (RequestException ConnectionError)
       | NoReply \<Rightarrow> (case rq_timeout rq of
                      None \<Rightarrow> Hangs
                    | Some t \<Rightarrow> Raises (RequestException Timeout))
       | Reply status body \<Rightarrow> Returns (status, body)),
      reqs @ [rq])"

definition raise_for_status :: "http_response \<Rightarrow> unit result" where
  "raise_for_status r =
     (if 400 \<le> fst r \<and> fst r < 600 then Raises (RequestException HTTPError) else Returns ())"

definition response_json :: "http_response \<Rightarrow> json result" where
  "response_json r = (case snd r of None \<Rightarrow> Raises (RequestException JSONDecodeError) | Some j \<Rightarrow> Returns j)"

text \<open>
  The three lines every client function of \<^verbatim>\<open>tmdb.py\<close> but the last starts its \<^verbatim>\<open>try\<close> with:
  \<^verbatim>\<open>response = requests.get(url, params=params, timeout=10)\<close>,
  \<^verbatim>\<open>response.raise_for_status()\<close>, \<^verbatim>\<open>data = response.json()\<close>.
\<close>

definition get_checked_json :: "env \<Rightarrow> fstring \<Rightarrow> (string \<times> json) list \<Rightarrow> request list \<Rightarrow> json result \<times> request list" where
  "get_checked_json E u ps reqs =
     bind_s (requests_get E \<lparr>rq_url = u, rq_params = ps, rq_timeout = Some 10\<rparr> reqs)
       (\<lambda>response reqs. bind_s (raise_for_status response, reqs)
         (\<lambda>_ reqs. (response_json response, reqs)))"

section \<open>The catalogue client (\<^verbatim>\<open>tmdb.py\<close>)\<close>

text \<open>
  Each function reads the key, sends one request and works on the decoded answer inside
  \<^verbatim>\<open>try ... except requests.RequestException\<close>. The handler returns the function's empty
  result; an exception of another class, raised while the answer is taken apart,
  passes through it. The movie identifier is interpolated into the URL as it is.
\<close>

record search_result =
  sr_movies :: "TMDBMovie list"
  sr_page :: json
  sr_total_pages :: json
  sr_total_results :: json

definition search_item :: "json \<Rightarrow> TMDBMovie result" where
  "search_item item =
     bind (as_dict item)
       (\<lambda>d. Returns
          \<lparr>tm_id = lookup d ''id'' JNull,
           tm_title = lookup d ''title'' (JStr []),
           tm_overview = lookup d ''overview'' (JStr []),
           tm_poster_path = lookup d ''poster_path'' JNull,
           tm_backdrop_path = lookup d ''backdrop_path'' JNull,
           tm_release_date = lookup d ''release_date'' (JStr []),
           tm_vote_average = lookup d ''vote_average'' (JFloat 0),
           tm_vote_count = lookup d ''vote_count'' (JInt 0),
           tm_genre_ids = lookup d ''genre_ids'' (JArr []),
           tm_genres = [],
           tm_runtime = JInt 0,
           tm_tagline = JStr []\<rparr>)"

definition search_of :: "json \<Rightarrow> search_result result" where
  "search_of data =
     bind (as_dict data)
       (\<lambda>d. bind (iterate (lookup d ''results'' (JArr [])))
         (\<lambda>items. bind (for_each search_item items)
           (\<lambda>movies. Returns
              \<lparr>sr_movies = movies,
               sr_page = lookup d ''page'' (JInt 1),
               sr_total_pages = lookup d ''total_pages'' (JInt 1),
               sr_total_results = lookup d ''total_results'' (JInt 0)\<rparr>)))"

definition search_movies :: "env \<Rightarrow> string \<Rightarrow> int \<Rightarrow> request list \<Rightarrow> search_result result \<times> request list" where
  "search_movies E query page reqs =
     (case get_api_key E of
        Raises e \<Rightarrow> (Raises e, reqs)
      | Hangs \<Rightarrow> (Hangs, reqs)
      | Returns k \<Rightarrow>
          except_s
            (bind_s
               (get_checked_json E [Lit TMDB_BASE_URL, Lit ''/search/movie'']
                  [(''api_key'', JStr k), (''query'', JStr query), (''page'', JInt page),
                   (''include_adult'', JBool False), (''language'', JStr ''en-US'')] reqs)
               (\<lambda>data reqs. (search_of data, reqs)))
            is_RequestException
            \<lparr>sr_movies = [], sr_page = JInt 1, sr_total_pages = JInt 1, sr_total_results = JInt 0\<rparr>)"

definition details_of :: "json \<Rightarrow> TMDBMovie result" where
  "details_of data =
     bind (as_dict data)
       (\<lambda>d. bind (iterate (lookup d ''genres'' (JArr [])))
         (\<lambda>items. bind (for_each (\<lambda>genre. dict_get genre ''name'' (JStr [])) items)
           (\<lambda>genres. Returns
              \<lparr>tm_id = lookup d ''id'' JNull,
               tm_title = lookup d ''title'' (JStr []),
               tm_overview = lookup d ''overview'' (JStr []),
               tm_poster_path = lookup d ''poster_path'' JNull,
               tm_backdrop_path = lookup d ''backdrop_path'' JNull,
               tm_release_date = lookup d ''release_date'' (JStr []),
               tm_vote_average = lookup d ''vote_average'' (JFloat 0),
               tm_vote_count = lookup d ''vote_count'' (JInt 0),
               tm_genre_ids = JArr [],
               tm_genres = genres,
               tm_runtime = lookup d ''runtime'' (JInt 0),
               tm_tagline = lookup d ''tagline'' (JStr [])\<rparr>)))"

definition details_request :: "string \<Rightarrow> json \<Rightarrow> request" where
  "details_request k movie_id =
     \<lparr>rq_url = [Lit TMDB_BASE_URL, Lit ''/movie/'', Fmt movie_id],
      rq_params = [(''api_key'', JStr k), (''language'', JStr ''en-US'')],
      rq_timeout = Some 10\<rparr>"

definition get_movie_details :: "env \<Rightarrow> json \<Rightarrow> request list \<Rightarrow> TMDBMovie option result \<times> request list" where
  "get_movie_details E movie_id reqs =
     (case get_api_key E of
        Raises e \<Rightarrow> (Raises e, reqs)
      | Hangs \<Rightarrow> (Hangs, reqs)
      | Returns k \<Rightarrow>
          except_s
            (bind_s
               (get_checked_json E [Lit TMDB_BASE_URL, Lit ''/movie/'', Fmt movie_id]
                  [(''api_key'', JStr k), (''language'', JStr ''en-US'')] reqs)
               (\<lambda>data reqs. (bind (details_of data) (\<lambda>movie. Returns (Some movie)), reqs)))
            is_RequestException None)"

definition cast_member_of :: "json \<Rightarrow> TMDBCastMember result" where
  "cast_member_of item =
     bind (as_dict item)
       (\<lambda>d. Returns
          \<lparr>cm_id = lookup d ''id'' JNull,
           cm_name = lookup d ''name'' (JStr []),
           cm_character = lookup d ''character'' (JStr []),
           cm_profile_path = lookup d ''profile_path'' JNull\<rparr>)"

text \<open>\<^verbatim>\<open>for item in data.get("cast", [])[:10]\<close>: the read, the slice, the loop.\<close>

definition cast_of :: "json \<Rightarrow> TMDBCastMember list result" where
  "cast_of data =
     bind (dict_get data ''cast'' (JArr []))
       (\<lambda>cast. bind (slice_to cast 10)
         (\<lambda>top. bind (iterate top) (for_each cast_member_of)))"

definition credits_request :: "string \<Rightarrow> json \<Rightarrow> request" where
  "credits_request k movie_id =
     \<lparr>rq_url = [Lit TMDB_BASE_URL, Lit ''/movie/'', Fmt movie_id, Lit ''/credits''],
      rq_params = [(''api_key'', JStr k), (''language'', JStr ''en-US'')],
      rq_timeout = Some 10\<rparr>"

definition get_movie_credits :: "env \<Rightarrow> json \<Rightarrow> request list \<Rightarrow> TMDBCastMember list result \<times> request list" where
  "get_movie_credits E movie_id reqs =
     (case get_api_key E of
        Raises e \<Rightarrow> (Raises e, reqs)
      | Hangs \<Rightarrow> (Hangs, reqs)
      | Returns k \<Rightarrow>
          except_s
            (bind_s
               (get_checked_json E [Lit TMDB_BASE_URL, Lit ''/movie/'', Fmt movie_id, Lit ''/credits'']
                  [(''api_key'', JStr k), (''language'', JStr ''en-US'')] reqs)
               (\<lambda>data reqs. (cast_of data, reqs)))
            is_RequestException [])"

definition video_of :: "json \<Rightarrow> TMDBVideo result" where
  "video_of item =
     bind (as_dict item)
       (\<lambda>d. Returns
          \<lparr>tv_id = lookup d ''id'' (JStr []),
           tv_key = lookup d ''key'' (JStr []),
           tv_name = lookup d ''name'' (JStr []),
           tv_site = lookup d ''site'' (JStr []),
           tv_type = lookup d ''type'' (JStr [])\<rparr>)"

text \<open>The loop of \<^verbatim>\<open>get_movie_videos\<close> over \<^verbatim>\<open>data.get("results", [])\<close>: the videos as sent.\<close>

definition videos_of :: "json \<Rightarrow> TMDBVideo list result" where
  "videos_of data =
     bind (dict_get data ''results'' (JArr []))
       (\<lambda>results. bind (iterate results) (for_each video_of))"

text \<open>
  \<^verbatim>\<open>videos.sort(key=lambda v: (v.type != "Trailer", v.type != "Teaser"))\<close>: Python's
  \<^verbatim>\<open>list.sort\<close> is stable, tuples compare lexicographically and \<^verbatim>\<open>False < True\<close>. A stable
  sort on a key has one possible result, which the insertion sort \<open>sort_key\<close> computes.
\<close>

definition video_sort_key :: "TMDBVideo \<Rightarrow> bool \<times> bool" where
  "video_sort_key v = (tv_type v \<noteq> JStr ''Trailer'', tv_type v \<noteq> JStr ''Teaser'')"

definition sort_videos :: "TMDBVideo list \<Rightarrow> TMDBVideo list" where
  "sort_videos videos = sort_key video_sort_key videos"

definition videos_request :: "string \<Rightarrow> json \<Rightarrow> request" where
  "videos_request k movie_id =
     \<lparr>rq_url = [Lit TMDB_BASE_URL, Lit ''/movie/'', Fmt movie_id, Lit ''/videos''],
      rq_params = [(''api_key'', JStr k), (''language'', JStr ''en-US'')],
      rq_timeout = Some 10\<rparr>"

definition get_movie_videos :: "env \<Rightarrow> json \<Rightarrow> request list \<Rightarrow> TMDBVideo list result \<times> request list" where
  "get_movie_videos E movie_id reqs =
     (case get_api_key E of
        Raises e \<Rightarrow> (Raises e, reqs)
      | Hangs \<Rightarrow> (Hangs, reqs)
      | Returns k \<Rightarrow>
          except_s
            (bind_s
               (get_checked_json E [Lit TMDB_BASE_URL, Lit ''/movie/'', Fmt movie_id, Lit ''/videos'']
                  [(''api_key'', JStr k), (''language'', JStr ''en-US'')] reqs)
               (\<lambda>data reqs. (bind (videos_of data) (\<lambda>videos. Returns (sort_videos videos)), reqs)))
            is_RequestException [])"

text \<open>
  \<^verbatim>\<open>get_full_movie_info\<close>. A dataclass instance is always true, so \<^verbatim>\<open>if not movie\<close> tests
  for \<^verbatim>\<open>None\<close>. The loop with \<^verbatim>\<open>break\<close> keeps the first video whose \<^verbatim>\<open>youtube_url\<close> is true; it
  stands outside every \<^verbatim>\<open>try\<close>.
\<close>

record full_info =
  fi_movie :: TMDBMovie
  fi_cast :: "TMDBCastMember list"
  fi_videos :: "TMDBVideo list"
  fi_trailer :: "TMDBVideo option"

fun first_trailer :: "TMDBVideo list \<Rightarrow> TMDBVideo option result" where
  "first_trailer [] = Returns None"
| "first_trailer (video # videos) =
     bind (youtube_url video)
       (\<lambda>u. if truthy_fstring u then Returns (Some video) else first_trailer videos)"

definition get_full_movie_info :: "env \<Rightarrow> json \<Rightarrow> request list \<Rightarrow> full_info option result \<times> request list" where
  "get_full_movie_info E movie_id reqs =
     bind_s (get_movie_details E movie_id reqs)
       (\<lambda>movie reqs.
          case movie of
            None \<Rightarrow> (Returns None, reqs)
          | Some m \<Rightarrow>
              bind_s (get_movie_credits E movie_id reqs)
                (\<lambda>cast reqs.
                   bind_s (get_movie_videos E movie_id reqs)
                     (\<lambda>videos reqs.
                        bind_s (first_trailer videos, reqs)
                          (\<lambda>trailer reqs.
                             (Returns (Some \<lparr>fi_movie = m, fi_cast = cast, fi_videos = videos,
                                              fi_trailer = trailer\<rparr>), reqs)))))"

text \<open>
  \<^verbatim>\<open>get_director\<close>: the loop returns the name of the first crew member whose job is
  \<^verbatim>\<open>"Director"\<close>, the empty string when there is none.
\<close>

fun first_director :: "json list \<Rightarrow> json result" where
  "first_director [] = Returns (JStr [])"
| "first_director (crew_member # crew) =
     bind (dict_get crew_member ''job'' JNull)
       (\<lambda>job. if job = JStr ''Director'' then dict_get crew_member ''name'' (JStr [])
               else first_director crew)"

definition director_of :: "json \<Rightarrow> json result" where
  "director_of data =
     bind (dict_get data ''crew'' (JArr [])) (\<lambda>crew. bind (iterate crew) first_director)"

definition get_director :: "env \<Rightarrow> json \<Rightarrow> request list \<Rightarrow> json result \<times> request list" where
  "get_director E movie_id reqs =
     (case get_api_key E of
        Raises e \<Rightarrow> (Raises e, reqs)
      | Hangs \<Rightarrow> (Hangs, reqs)
      | Returns k \<Rightarrow>
          except_s
            (bind_s
               (get_checked_json E [Lit TMDB_BASE_URL, Lit ''/movie/'', Fmt movie_id, Lit ''/credits'']
                  [(''api_key'', JStr k), (''language'', JStr ''en-US'')] reqs)
               (\<lambda>data reqs. (director_of data, reqs)))
            is_RequestException (JStr []))"

text \<open>
  \<^verbatim>\<open>get_featured_indian_movies\<close>: \<^verbatim>\<open>requests.get(url, params=params).json()\<close> with no
  \<^verbatim>\<open>timeout\<close> and no \<^verbatim>\<open>raise_for_status\<close>, then \<^verbatim>\<open>response.get("results", [])[:limit]\<close>, all
  inside \<^verbatim>\<open>try ... except Exception\<close>.
\<close>

definition get_featured_indian_movies :: "env \<Rightarrow> nat \<Rightarrow> request list \<Rightarrow> json result \<times> request list" where
  "get_featured_indian_movies E limit reqs =
     (case get_api_key E of
        Raises e \<Rightarrow> (Raises e, reqs)
      | Hangs \<Rightarrow> (Hangs, reqs)
      | Returns k \<Rightarrow>
          except_s
            (bind_s
               (requests_get E
                  \<lparr>rq_url = [Lit TMDB_BASE_URL, Lit ''/discover/movie''],
                   rq_params = [(''api_key'', JStr k), (''language'', JStr ''en-US''),
                                (''sort_by'', JStr ''popularity.desc''),
                                (''with_origin_country'', JStr ''IN''), (''page'', JInt 1)],
                   rq_timeout = None\<rparr> reqs)
               (\<lambda>r reqs. bind_s (response_json r, reqs)
                  (\<lambda>response reqs.
                     (bind (dict_get response ''results'' (JArr []))
                        (\<lambda>movies. slice_to movies limit), reqs))))
            is_Exception (JArr []))"

section \<open>The owned records and the store\<close>

text \<open>
  Modelled from the spec: the dataclasses \<^verbatim>\<open>Movie\<close> and \<^verbatim>\<open>User\<close> of
  \<^verbatim>\<open>movie_library/models.py\<close> and the store behind \<^verbatim>\<open>current_app.db\<close>, which are not among
  the sources. The fields are the ones the spec's data model lists and the routes
  assign; a field of \<^verbatim>\<open>Movie\<close> holds the value an import gives it, optional fields start
  absent or empty. A collection is the list of its documents in insertion order,
  \<^verbatim>\<open>find_one\<close> returns the first match and \<^verbatim>\<open>update_one\<close> changes the first match or
  nothing. \<^verbatim>\<open>insert_one\<close> refuses a second document with the same \<^verbatim>\<open>_id\<close>, and the user
  collection also refuses a second document with the same email: the spec's data model
  has the email unique and leaves the refusal of a duplicate to the store.
\<close>

record Movie =
  mv_id :: string
  mv_title :: json
  mv_director :: json
  mv_year :: int
  mv_cast :: "json list"
  mv_tags :: "json list"
  mv_description :: json
  mv_video_link :: "fstring option"
  mv_rating :: "int option"
  mv_last_watched :: "nat option"

record User =
  us_id :: string
  us_email :: string
  us_password :: string
  us_name :: string
  us_bio :: string
  us_avatar_url :: string
  us_movies :: "string list"

record database =
  db_user :: "User list"
  db_movie :: "Movie list"

definition find_one_movie :: "database \<Rightarrow> string \<Rightarrow> Movie option" where
  "find_one_movie d i = find (\<lambda>m. mv_id m = i) (db_movie d)"

definition find_one_user_by_email :: "database \<Rightarrow> string \<Rightarrow> User option" where
  "find_one_user_by_email d e = find (\<lambda>u. us_email u = e) (db_user d)"

definition insert_one_movie :: "database \<Rightarrow> Movie \<Rightarrow> database result" where
  "insert_one_movie d m =
     (if mv_id m \<in> set (map mv_id (db_movie d)) then Raises DuplicateKeyError
      else Returns (d\<lparr>db_movie := db_movie d @ [m]\<rparr>))"


fun update_first :: "('a \<Rightarrow> bool) \<Rightarrow> ('a \<Rightarrow> 'a) \<Rightarrow> 'a list \<Rightarrow> 'a list" where
  "update_first P f [] = []"
| "update_first P f (x # xs) = (if P x then f x # xs else x # update_first P f xs)"

text \<open>
  The filter value of \<^verbatim>\<open>{"_id": session["user_id"]}\<close> is whatever the session holds, which
  may be \<^verbatim>\<open>None\<close>; then no document matches.
\<close>

definition push_movie :: "database \<Rightarrow> string option \<Rightarrow> string \<Rightarrow> database" where
  "push_movie d uid mid =
     d\<lparr>db_user := update_first (\<lambda>u. Some (us_id u) = uid)
                     (\<lambda>u. u\<lparr>us_movies := us_movies u @ [mid]\<rparr>) (db_user d)\<rparr>"

definition set_rating :: "database \<Rightarrow> string \<Rightarrow> int \<Rightarrow> database" where
  "set_rating d mid rating =
     d\<lparr>db_movie := update_first (\<lambda>m. mv_id m = mid) (\<lambda>m. m\<lparr>mv_rating := Some rating\<rparr>) (db_movie d)\<rparr>"

definition set_last_watched :: "database \<Rightarrow> string \<Rightarrow> nat \<Rightarrow> database" where
  "set_last_watched d mid today =
     d\<lparr>db_movie := update_first (\<lambda>m. mv_id m = mid) (\<lambda>m. m\<lparr>mv_last_watched := Some today\<rparr>)
                      (db_movie d)\<rparr>"

section \<open>The routes (\<^verbatim>\<open>routes.py\<close>)\<close>

text \<open>
  What a request can change: the store, the session, the queue of flashed messages and
  the requests sent to the catalogue. The session is the dictionary of the keys the
  routes set (\<^verbatim>\<open>user_id\<close>, \<^verbatim>\<open>email\<close>, \<^verbatim>\<open>theme\<close>); a key may be bound to \<^verbatim>\<open>None\<close>. Flask keeps the
  flashed messages under a reserved key of the same cookie; they are a component of
  their own here, emptied with the session by \<^verbatim>\<open>session.clear()\<close>. Templates are outside
  the model: a rendered page is the name of its template.
\<close>

record state =
  db :: database
  session :: "string \<rightharpoonup> string option"
  flashes :: "(string \<times> fstring) list"
  requests :: "request list"

datatype page =
    Render string
  | Redirect string "(string \<times> string) list"
  | RedirectTo "string option"

definition session_get :: "(string \<rightharpoonup> string option) \<Rightarrow> string \<Rightarrow> string option" where
  "session_get s k = (case s k of None \<Rightarrow> None | Some v \<Rightarrow> v)"

definition session_subscript :: "(string \<rightharpoonup> string option) \<Rightarrow> string \<Rightarrow> string option result" where
  "session_subscript s k = (case s k of None \<Rightarrow> Raises KeyError | Some v \<Rightarrow> Returns v)"

definition flash :: "fstring \<Rightarrow> string \<Rightarrow> state \<Rightarrow> state" where
  "flash message category st = st\<lparr>flashes := flashes st @ [(category, message)]\<rparr>"

text \<open>The endpoints of the blueprint: the functions of \<^verbatim>\<open>routes.py\<close> that carry a route decorator.\<close>

definition endpoints :: "string list" where
  "endpoints =
     [''home'', ''index'', ''register'', ''login'', ''logout'', ''add_movie'', ''edit_movie'',
      ''movie'', ''rate_movie'', ''watch_today'', ''toggle_theme'', ''profile'', ''search'',
      ''tmdb_movie'', ''add_from_tmdb'', ''add_featured'']"

text \<open>\<^verbatim>\<open>redirect(url_for(".name", ...))\<close>: \<^verbatim>\<open>url_for\<close> raises \<^verbatim>\<open>BuildError\<close> for an unknown endpoint.\<close>

definition url_for :: "string \<Rightarrow> (string \<times> string) list \<Rightarrow> (string \<times> (string \<times> string) list) result" where
  "url_for name args = (if name \<in> set endpoints then Returns (name, args) else Raises BuildError)"

definition redirect_url_for :: "string \<Rightarrow> (string \<times> string) list \<Rightarrow> page result" where
  "redirect_url_for name args = bind (url_for name args) (\<lambda>u. Returns (Redirect (fst u) (snd u)))"

definition with_requests :: "(request list \<Rightarrow> 'a result \<times> request list) \<Rightarrow> state \<Rightarrow> 'a result \<times> state" where
  "with_requests f st = (fst (f (requests st)), st\<lparr>requests := snd (f (requests st))\<rparr>)"

definition login_required :: "(state \<Rightarrow> page result \<times> state) \<Rightarrow> state \<Rightarrow> page result \<times> state" where
  "login_required route st =
     (if session_get (session st) ''email'' = None then (redirect_url_for ''login'' [], st)
      else route st)"

text \<open>
  \<^verbatim>\<open>fetch_featured_movies\<close>: one request with no \<^verbatim>\<open>timeout\<close> and no \<^verbatim>\<open>try\<close>, then a
  director lookup for each of the first eight results.
\<close>

fun featured_loop :: "env \<Rightarrow> json list \<Rightarrow> json list \<Rightarrow> request list \<Rightarrow> json list result \<times> request list" where
  "featured_loop E [] movies reqs = (Returns movies, reqs)"
| "featured_loop E (movie # rest) movies reqs =
     bind_s (subscript movie ''id'', reqs)
       (\<lambda>movie_id reqs. bind_s (get_director E movie_id reqs)
         (\<lambda>director reqs. bind_s (subscript movie ''title'', reqs)
           (\<lambda>title reqs. bind_s (as_dict movie, reqs)
             (\<lambda>d reqs.
                featured_loop E rest
                  (movies @ [JObj [(''id'', movie_id), (''title'', title),
                                   (''poster_path'', lookup d ''poster_path'' JNull),
                                   (''release_date'', lookup d ''release_date'' (JStr ''N/A'')),
                                   (''vote_average'', lookup d ''vote_average'' (JFloat 0)),
                                   (''director'', director)]])
                  reqs))))"

definition fetch_featured_movies :: "env \<Rightarrow> request list \<Rightarrow> json list result \<times> request list" where
  "fetch_featured_movies E reqs =
     (case get_api_key E of
        Raises e \<Rightarrow> (Raises e, reqs)
      | Hangs \<Rightarrow> (Hangs, reqs)
      | Returns k \<Rightarrow>
          bind_s
            (requests_get E
               \<lparr>rq_url = [Lit ''https://api.themoviedb.org/3/movie/now_playing?api_key='', Lit k,
                           Lit ''&language=en-US&page=1''],
                rq_params = [], rq_timeout = None\<rparr> reqs)
            (\<lambda>r reqs. bind_s (response_json r, reqs)
               (\<lambda>data reqs. bind_s (dict_get data ''results'' (JArr []), reqs)
                  (\<lambda>response reqs. bind_s (bind (slice_to response 8) iterate, reqs)
                     (\<lambda>first8 reqs. featured_loop E first8 [] reqs)))))"

fun home_loop :: "env \<Rightarrow> json list \<Rightarrow> json list \<Rightarrow> request list \<Rightarrow> json list result \<times> request list" where
  "home_loop E [] movies reqs = (Returns movies, reqs)"
| "home_loop E (movie # rest) movies reqs =
     bind_s (subscript movie ''id'', reqs)
       (\<lambda>movie_id reqs. bind_s (as_dict movie, reqs)
         (\<lambda>d reqs. bind_s (get_director E movie_id reqs)
           (\<lambda>director reqs.
              home_loop E rest
                (movies @ [JObj [(''id'', movie_id),
                                 (''title'', lookup d ''title'' (JStr ''No Title'')),
                                 (''poster_path'', lookup d ''poster_path'' JNull),
                                 (''release_date'', lookup d ''release_date'' (JStr [])),
                                 (''vote_average'', lookup d ''vote_average'' (JInt 0)),
                                 (''director'', director)]])
                reqs)))"

definition home :: "env \<Rightarrow> state \<Rightarrow> page result \<times> state" where
  "home E st =
     bind_s (with_requests (get_featured_indian_movies E 12) st)
       (\<lambda>data st. bind_s (iterate data, st)
         (\<lambda>items st. bind_s (with_requests (home_loop E items []) st)
           (\<lambda>movies st. (Returns (Render ''home.html''), st))))"


definition login :: "(string \<Rightarrow> string \<Rightarrow> bool) \<Rightarrow> bool \<Rightarrow> string \<Rightarrow> string \<Rightarrow> state \<Rightarrow> page result \<times> state" where
  "login verify validate_on_submit email password st =
     (if truthy (session_get (session st) ''email'') then (redirect_url_for ''home'' [], st)
      else if validate_on_submit then
        (case find_one_user_by_email (db st) email of
           None \<Rightarrow>
             (redirect_url_for ''login'' [],
              flash [Lit ''Login credins=tials not correct''] ''danger'' st)
         | Some user \<Rightarrow>
             if verify password (us_password user)
             then (redirect_url_for ''home'' [],
                   st\<lparr>session := (session st)(''user_id'' \<mapsto> Some (us_id user),
                                              ''email'' \<mapsto> Some (us_email user))\<rparr>)
             else (Returns (Render ''login.html''),
                   flash [Lit ''Login credins=tials not correct''] ''danger'' st))
      else (Returns (Render ''login.html''), st))"

definition logout :: "state \<Rightarrow> page result \<times> state" where
  "logout st =
     (let current_theme = session_get (session st) ''theme''
      in (redirect_url_for ''login'' [],
          st\<lparr>session := Map.empty(''theme'' \<mapsto> current_theme), flashes := []\<rparr>))"

text \<open>
  \<^verbatim>\<open>movie\<close>: \<^verbatim>\<open>Movie(**current_app.db.movie.find_one({"_id": _id}))\<close>. \<^verbatim>\<open>find_one\<close> returns
  \<^verbatim>\<open>None\<close> when no document matches, and \<^verbatim>\<open>**None\<close> is a \<^verbatim>\<open>TypeError\<close>.
\<close>

definition movie :: "string \<Rightarrow> state \<Rightarrow> page result \<times> state" where
  "movie mid st =
     (case find_one_movie (db st) mid of
        None \<Rightarrow> (Raises TypeError, st)
      | Some m \<Rightarrow> (Returns (Render ''movie_details.html''), st))"

definition rate_movie :: "string \<Rightarrow> string option \<Rightarrow> state \<Rightarrow> page result \<times> state" where
  "rate_movie mid rating_arg st =
     login_required
       (\<lambda>st. bind_s (int_of_optional rating_arg, st)
          (\<lambda>rating st. (redirect_url_for ''movie'' [(''_id'', mid)],
                         st\<lparr>db := set_rating (db st) mid rating\<rparr>)))
       st"

definition watch_today :: "string \<Rightarrow> nat \<Rightarrow> state \<Rightarrow> page result \<times> state" where
  "watch_today mid today st =
     login_required
       (\<lambda>st. (redirect_url_for ''movie'' [(''_id'', mid)],
               st\<lparr>db := set_last_watched (db st) mid today\<rparr>))
       st"

text \<open>
  \<^verbatim>\<open>toggle_theme\<close> writes the theme and then redirects to the \<^verbatim>\<open>current_page\<close> argument of the
  request, which may be missing; the target is kept as the route received it.
\<close>

definition toggle_theme :: "string option \<Rightarrow> state \<Rightarrow> page result \<times> state" where
  "toggle_theme current_page st =
     (let current_theme = session_get (session st) ''theme''
      in (Returns (RedirectTo current_page),
          st\<lparr>session := (session st)(''theme'' \<mapsto>
                Some (if current_theme = Some ''dark'' then ''light'' else ''dark''))\<rparr>))"

text \<open>
  The two imports. The identifier in the URL is an integer (\<^verbatim>\<open><int:movie_id>\<close>).
  \<^verbatim>\<open>add_from_tmdb\<close> starts from \<^verbatim>\<open>video_link = ""\<close> and replaces it when the trailer and its
  \<^verbatim>\<open>youtube_url\<close> are true; \<^verbatim>\<open>add_featured\<close> takes \<^verbatim>\<open>trailer.youtube_url if trailer else ""\<close>,
  and ends with \<^verbatim>\<open>url_for(".watchlist")\<close>. Both look the director up, compute the video
  link and the names of the cast, read the year while they build the \<^verbatim>\<open>Movie\<close>, insert
  it, and push its identifier onto the user's list.
\<close>

definition tmdb_video_link :: "TMDBVideo option \<Rightarrow> fstring option result" where
  "tmdb_video_link trailer =
     (case trailer of
        None \<Rightarrow> Returns (Some [])
      | Some t \<Rightarrow> bind (youtube_url t)
                   (\<lambda>u. if truthy_fstring u then youtube_url t else Returns (Some [])))"

definition featured_video_link :: "TMDBVideo option \<Rightarrow> fstring option result" where
  "featured_video_link trailer =
     (case trailer of None \<Rightarrow> Returns (Some []) | Some t \<Rightarrow> youtube_url t)"

definition imported :: "string \<Rightarrow> full_info \<Rightarrow> json \<Rightarrow> int \<Rightarrow> fstring option \<Rightarrow> Movie" where
  "imported uuid info director y link =
     \<lparr>mv_id = uuid, mv_title = tm_title (fi_movie info), mv_director = director, mv_year = y,
      mv_cast = map cm_name (fi_cast info), mv_tags = tm_genres (fi_movie info),
      mv_description = tm_overview (fi_movie info), mv_video_link = link,
      mv_rating = None, mv_last_watched = None\<rparr>"

definition add_from_tmdb :: "env \<Rightarrow> string \<Rightarrow> int \<Rightarrow> state \<Rightarrow> page result \<times> state" where
  "add_from_tmdb E uuid movie_id st =
     login_required
       (\<lambda>st. bind_s (with_requests (get_full_movie_info E (JInt movie_id)) st)
          (\<lambda>movie_info st.
             case movie_info of
               None \<Rightarrow> (redirect_url_for ''search'' [], flash [Lit ''Movie not found''] ''danger'' st)
             | Some info \<Rightarrow>
                 bind_s (with_requests (get_director E (JInt movie_id)) st)
                   (\<lambda>director st. bind_s (tmdb_video_link (fi_trailer info), st)
                     (\<lambda>video_link st. bind_s (year (fi_movie info), st)
                       (\<lambda>y st. bind_s
                          (insert_one_movie (db st) (imported uuid info director y video_link), st)
                          (\<lambda>d st. bind_s (session_subscript (session st) ''user_id'', st\<lparr>db := d\<rparr>)
                             (\<lambda>user_id st.
                                (redirect_url_for ''movie'' [(''_id'', uuid)],
                                 flash [Lit [CHR 0x27], Fmt (tm_title (fi_movie info)),
                                        Lit (CHR 0x27 # '' added to your watchlist!'')]
                                   ''success'' (st\<lparr>db := push_movie (db st) user_id uuid\<rparr>)))))))))
       st"

definition add_featured :: "env \<Rightarrow> string \<Rightarrow> int \<Rightarrow> state \<Rightarrow> page result \<times> state" where
  "add_featured E uuid movie_id st =
     login_required
       (\<lambda>st. bind_s (with_requests (get_full_movie_info E (JInt movie_id)) st)
          (\<lambda>movie_info st.
             case movie_info of
               None \<Rightarrow>
                 (redirect_url_for ''home'' [],
                  flash [Lit ''Could not load movie details.''] ''danger'' st)
             | Some info \<Rightarrow>
                 bind_s (with_requests (get_director E (JInt movie_id)) st)
                   (\<lambda>director st. bind_s (featured_video_link (fi_trailer info), st)
                     (\<lambda>trailer_url st. bind_s (year (fi_movie info), st)
                       (\<lambda>y st. bind_s
                          (insert_one_movie (db st) (imported uuid info director y trailer_url), st)
                          (\<lambda>d st. bind_s (session_subscript (session st) ''user_id'', st\<lparr>db := d\<rparr>)
                             (\<lambda>user_id st.
                                (redirect_url_for ''watchlist'' [],
                                 flash [Fmt (tm_title (fi_movie info)),
                                        Lit '' added to your watchlist!'']
                                   ''success'' (st\<lparr>db := push_movie (db st) user_id uuid\<rparr>)))))))))
       st"

text \<open>
  What the stored record is compared with when it is read again: the catalogue's title,
  the director the lookup made after the aggregate returns, the display year, the names
  of the cast, the genre names, the overview, and the embed URL of the selected trailer
  (the empty string without one).
\<close>

definition round_trip :: "env \<Rightarrow> int \<Rightarrow> request list \<Rightarrow> full_info \<Rightarrow> Movie \<Rightarrow> bool" where
  "round_trip E movie_id reqs1 info stored =
     (mv_title stored = tm_title (fi_movie info)
      \<and> fst (get_director E (JInt movie_id) reqs1) = Returns (mv_director stored)
      \<and> year (fi_movie info) = Returns (mv_year stored)
      \<and> mv_cast stored = map cm_name (fi_cast info)
      \<and> mv_tags stored = tm_genres (fi_movie info)
      \<and> mv_description stored = tm_overview (fi_movie info)
      \<and> mv_video_link stored
          = Some (case fi_trailer info of
                    None \<Rightarrow> []
                  | Some t \<Rightarrow> [Lit ''https://www.youtube.com/embed/'', Fmt (tv_key t)]))"

section \<open>Example inputs\<close>

text \<open>
  A catalogue that answers the details, credits and videos requests of one movie in
  this order (and every later request with the credits), one that is unreachable, one
  that accepts the connection and never answers, one that always sends the videos, and
  one whose credits have \<^verbatim>\<open>null\<close> for the cast.
\<close>

definition details_json :: json where
  "details_json =
     JObj [(''id'', JInt 27205), (''title'', JStr ''Inception''),
           (''overview'', JStr ''A thief who steals secrets.''),
           (''release_date'', JStr ''2010-07-16''),
           (''genres'', JArr [JObj [(''id'', JInt 28), (''name'', JStr ''Action'')]])]"

definition credits_json :: json where
  "credits_json =
     JObj [(''cast'', JArr [JObj [(''id'', JInt 6193), (''name'', JStr ''Leonardo DiCaprio''),
                                  (''character'', JStr ''Cobb'')]]),
           (''crew'', JArr [JObj [(''job'', JStr ''Producer''), (''name'', JStr ''Emma Thomas'')],
                            JObj [(''job'', JStr ''Director''), (''name'', JStr ''Christopher Nolan'')]])]"

definition videos_json :: json where
  "videos_json =
     JObj [(''results'',
            JArr [JObj [(''id'', JStr ''v1''), (''key'', JStr ''k1''), (''name'', JStr ''Making of''),
                        (''site'', JStr ''youtube''), (''type'', JStr ''Featurette'')],
                  JObj [(''id'', JStr ''v2''), (''key'', JStr ''k2''), (''name'', JStr ''Trailer A''),
                        (''site'', JStr ''Vimeo''), (''type'', JStr ''Trailer'')],
                  JObj [(''id'', JStr ''v3''), (''key'', JStr ''k3''), (''name'', JStr ''Teaser''),
                        (''site'', JStr ''youtube''), (''type'', JStr ''Teaser'')],
                  JObj [(''id'', JStr ''v4''), (''key'', JStr ''k4''), (''name'', JStr ''Trailer B''),
                        (''site'', JStr ''youtube''), (''type'', JStr ''Trailer'')]])]"

definition catalogue_up :: env where
  "catalogue_up =
     \<lparr>api_key = Some ''key'',
      net = (\<lambda>reqs rq. case length reqs of
                          0 \<Rightarrow> Reply 200 (Some details_json)
                        | Suc 0 \<Rightarrow> Reply 200 (Some credits_json)
                        | Suc (Suc 0) \<Rightarrow> Reply 200 (Some videos_json)
                        | _ \<Rightarrow> Reply 200 (Some credits_json))\<rparr>"

definition catalogue_down :: env where
  "catalogue_down = \<lparr>api_key = Some ''key'', net = (\<lambda>reqs rq. NoConnection)\<rparr>"

definition catalogue_silent :: env where
  "catalogue_silent = \<lparr>api_key = Some ''key'', net = (\<lambda>reqs rq. NoReply)\<rparr>"

definition catalogue_videos :: env where
  "catalogue_videos = \<lparr>api_key = Some ''key'', net = (\<lambda>reqs rq. Reply 200 (Some videos_json))\<rparr>"

definition catalogue_null_cast :: env where
  "catalogue_null_cast =
     \<lparr>api_key = Some ''key'',
      net = (\<lambda>reqs rq. case length reqs of
                          0 \<Rightarrow> Reply 200 (Some details_json)
                        | _ \<Rightarrow> Reply 200 (Some (JObj [(''cast'', JNull)])))\<rparr>"

definition inception :: TMDBMovie where
  "inception =
     \<lparr>tm_id = JInt 27205, tm_title = JStr ''Inception'',
      tm_overview = JStr ''A thief who steals secrets.'',
      tm_poster_path = JNull, tm_backdrop_path = JNull,
      tm_release_date = JStr ''2010-07-16'', tm_vote_average = JFloat 0,
      tm_vote_count = JInt 0, tm_genre_ids = JArr [], tm_genres = [JStr ''Action''],
      tm_runtime = JInt 0, tm_tagline = JStr []\<rparr>"

definition video_v1 :: TMDBVideo where
  "video_v1 = \<lparr>tv_id = JStr ''v1'', tv_key = JStr ''k1'', tv_name = JStr ''Making of'',
               tv_site = JStr ''youtube'', tv_type = JStr ''Featurette''\<rparr>"

definition video_v2 :: TMDBVideo where
  "video_v2 = \<lparr>tv_id = JStr ''v2'', tv_key = JStr ''k2'', tv_name = JStr ''Trailer A'',
               tv_site = JStr ''Vimeo'', tv_type = JStr ''Trailer''\<rparr>"

definition video_v3 :: TMDBVideo where
  "video_v3 = \<lparr>tv_id = JStr ''v3'', tv_key = JStr ''k3'', tv_name = JStr ''Teaser'',
               tv_site = JStr ''youtube'', tv_type = JStr ''Teaser''\<rparr>"

definition video_v4 :: TMDBVideo where
  "video_v4 = \<lparr>tv_id = JStr ''v4'', tv_key = JStr ''k4'', tv_name = JStr ''Trailer B'',
               tv_site = JStr ''youtube'', tv_type = JStr ''Trailer''\<rparr>"

definition inception_videos :: "TMDBVideo list" where
  "inception_videos = [video_v1, video_v2, video_v3, video_v4]"

definition inception_info :: full_info where
  "inception_info =
     \<lparr>fi_movie = inception,
      fi_cast = [\<lparr>cm_id = JInt 6193, cm_name = JStr ''Leonardo DiCaprio'',
                  cm_character = JStr ''Cobb'', cm_profile_path = JNull\<rparr>],
      fi_videos = [video_v2, video_v4, video_v3, video_v1],
      fi_trailer = Some video_v4\<rparr>"

text \<open>A store with one user and no movie, seen from a fresh browser and from a signed-in one.\<close>

definition alice :: User where
  "alice = \<lparr>us_id = ''u1'', us_email = ''alice@example.org'', us_password = ''hash(secret)'',
            us_name = [], us_bio = [], us_avatar_url = [], us_movies = []\<rparr>"

definition anonymous :: state where
  "anonymous = \<lparr>db = \<lparr>db_user = [alice], db_movie = []\<rparr>, session = Map.empty, flashes = [],
                requests = []\<rparr>"

definition signed_in :: state where
  "signed_in =
     \<lparr>db = \<lparr>db_user = [alice], db_movie = []\<rparr>,
      session = [''user_id'' \<mapsto> Some ''u1'', ''email'' \<mapsto> Some ''alice@example.org''],
      flashes = [], requests = []\<rparr>"

definition dark_session :: state where
  "dark_session = signed_in\<lparr>session := (session signed_in)(''theme'' \<mapsto> Some ''dark'')\<rparr>"

definition toy_hash :: "string \<Rightarrow> string" where
  "toy_hash password = ''hash('' @ password @ '')''"

definition toy_verify :: "string \<Rightarrow> string \<Rightarrow> bool" where
  "toy_verify password hashed = (hashed = toy_hash password)"

section \<open>Properties of the catalogue client\<close>

lemmas client_defs =
  get_movie_details_def get_movie_credits_def get_movie_videos_def get_director_def
  get_checked_json_def requests_get_def raise_for_status_def response_json_def get_api_key_def
  details_of_def cast_of_def cast_member_of_def videos_of_def video_of_def director_of_def

lemmas value_defs = as_dict_def lookup_def dict_get_def subscript_def iterate_def slice_to_def

lemmas int_of_str_defs =
  int_of_str_def strip_def is_space_def code_def is_digit_def decimal_value_def digit_value_def

lemmas example_defs =
  details_json_def credits_json_def videos_json_def inception_def
  video_v1_def video_v2_def video_v3_def video_v4_def inception_info_def

lemma bind_s_Returns:
  "bind_s x f = (Returns b, s') \<Longrightarrow> \<exists>a s1. x = (Returns a, s1) \<and> f a s1 = (Returns b, s')"
  by (cases x, rename_tac r s, case_tac r) auto

subsection \<open>The display year\<close>

















subsection \<open>The order of the videos\<close>

lemma sorted_video_keys: "sorted (map video_sort_key (sort_videos xs))"
  by (simp add: sort_videos_def)

lemma key_order:
  assumes "i < length (sort_videos xs)" "j < length (sort_videos xs)"
    and "video_sort_key (sort_videos xs ! i) < video_sort_key (sort_videos xs ! j)"
  shows "i < j"
proof (rule ccontr)
  assume "\<not> i < j"
  then have "j \<le> i" by simp
  with assms(1) sorted_video_keys[of xs]
  have "map video_sort_key (sort_videos xs) ! j \<le> map video_sort_key (sort_videos xs) ! i"
    by (simp add: sorted_iff_nth_mono)
  with assms show False by simp
qed

lemma trailers_first:
  "i < length (sort_videos xs) \<and> j < length (sort_videos xs)
     \<and> tv_type (sort_videos xs ! i) = JStr ''Trailer''
     \<and> tv_type (sort_videos xs ! j) \<noteq> JStr ''Trailer'' \<Longrightarrow> i < j"
  by (intro key_order[of i xs j]) (auto simp: video_sort_key_def less_prod_def)

lemma teasers_next:
  "i < length (sort_videos xs) \<and> j < length (sort_videos xs)
     \<and> tv_type (sort_videos xs ! i) = JStr ''Teaser''
     \<and> tv_type (sort_videos xs ! j) \<noteq> JStr ''Trailer''
     \<and> tv_type (sort_videos xs ! j) \<noteq> JStr ''Teaser'' \<Longrightarrow> i < j"
  by (intro key_order[of i xs j]) (auto simp: video_sort_key_def less_prod_def)

lemma group_stable:
  "filter (\<lambda>v. video_sort_key v = k) (sort_videos xs) = filter (\<lambda>v. video_sort_key v = k) xs"
  unfolding sort_videos_def by (rule sort_key_stable)

lemma type_stable:
  "filter (\<lambda>v. tv_type v = t) (sort_videos xs) = filter (\<lambda>v. tv_type v = t) xs"
proof -
  let ?k = "(t \<noteq> JStr ''Trailer'', t \<noteq> JStr ''Teaser'')"
  have eq: "\<And>ys. filter (\<lambda>v. tv_type v = t) ys
              = filter (\<lambda>v. tv_type v = t) (filter (\<lambda>v. video_sort_key v = ?k) ys)"
    by (auto simp: video_sort_key_def intro!: filter_cong)
  show ?thesis
    using eq[of "sort_videos xs"] eq[of xs] group_stable[of ?k xs] by simp
qed

subsection \<open>Every call of the client is one request with a timeout\<close>

lemma get_checked_json_cases:
  "(\<exists>j. get_checked_json E u ps reqs
          = (Returns j, reqs @ [\<lparr>rq_url = u, rq_params = ps, rq_timeout = Some 10\<rparr>]))
   \<or> (\<exists>k. get_checked_json E u ps reqs
          = (Raises (RequestException k), reqs @ [\<lparr>rq_url = u, rq_params = ps, rq_timeout = Some 10\<rparr>]))"
  by (auto simp: get_checked_json_def requests_get_def raise_for_status_def response_json_def
           split: http_reply.splits option.splits)

lemma get_api_key_cases:
  "(\<exists>k. api_key E = Some k \<and> k \<noteq> [] \<and> get_api_key E = Returns k) \<or> get_api_key E = Raises ValueError"
  by (auto simp: get_api_key_def split: option.splits)

lemma client_call_requests:
  "snd (except_s (bind_s (get_checked_json E u ps reqs) (\<lambda>data reqs. (g data, reqs))) h d)
     = reqs @ [\<lparr>rq_url = u, rq_params = ps, rq_timeout = Some 10\<rparr>]"
  using get_checked_json_cases[of E u ps reqs] by auto

lemma client_call_failure:
  "fst (get_checked_json E u ps reqs) = Raises (RequestException e) \<Longrightarrow>
     fst (except_s (bind_s (get_checked_json E u ps reqs) (\<lambda>data reqs. (g data, reqs)))
            is_RequestException d) = Returns d"
  by (cases "get_checked_json E u ps reqs") auto

lemma client_call_answer:
  "get_checked_json E u ps reqs = (Returns data, reqs') \<Longrightarrow>
     except_s (bind_s (get_checked_json E u ps reqs) (\<lambda>data reqs. (g data, reqs))) h d
       = (except (g data) h d, reqs')"
  by simp

lemma client_call_Returns:
  assumes "except_s (bind_s (get_checked_json E u ps reqs) (\<lambda>data reqs. (g data, reqs)))
             is_RequestException d = (Returns r, reqs')"
  shows "r = d \<or> (\<exists>data. get_checked_json E u ps reqs = (Returns data, reqs') \<and> g data = Returns r)"
proof -
  from get_checked_json_cases[of E u ps reqs] show ?thesis
  proof
    assume "\<exists>j. get_checked_json E u ps reqs
          = (Returns j, reqs @ [\<lparr>rq_url = u, rq_params = ps, rq_timeout = Some 10\<rparr>])"
    then obtain j where j: "get_checked_json E u ps reqs
          = (Returns j, reqs @ [\<lparr>rq_url = u, rq_params = ps, rq_timeout = Some 10\<rparr>])" ..
    with assms show ?thesis by (cases "g j") (auto split: if_splits)
  next
    assume "\<exists>k. get_checked_json E u ps reqs
          = (Raises (RequestException k), reqs @ [\<lparr>rq_url = u, rq_params = ps, rq_timeout = Some 10\<rparr>])"
    with assms show ?thesis by auto
  qed
qed

lemma get_movie_details_requests:
  "get_api_key E = Returns k \<Longrightarrow>
     snd (get_movie_details E movie_id reqs) = reqs @ [details_request k movie_id]"
  by (simp add: get_movie_details_def details_request_def client_call_requests)

lemma get_movie_credits_requests:
  "get_api_key E = Returns k \<Longrightarrow>
     snd (get_movie_credits E movie_id reqs) = reqs @ [credits_request k movie_id]"
  by (simp add: get_movie_credits_def credits_request_def client_call_requests)

lemma get_movie_videos_requests:
  "get_api_key E = Returns k \<Longrightarrow>
     snd (get_movie_videos E movie_id reqs) = reqs @ [videos_request k movie_id]"
  by (simp add: get_movie_videos_def videos_request_def client_call_requests)

lemma get_director_requests:
  "get_api_key E = Returns k \<Longrightarrow>
     snd (get_director E movie_id reqs) = reqs @ [credits_request k movie_id]"
  by (simp add: get_director_def credits_request_def client_call_requests)

lemma search_movies_requests:
  "get_api_key E = Returns k \<Longrightarrow>
     snd (search_movies E query page reqs)
       = reqs @ [\<lparr>rq_url = [Lit TMDB_BASE_URL, Lit ''/search/movie''],
                  rq_params = [(''api_key'', JStr k), (''query'', JStr query),
                               (''page'', JInt page), (''include_adult'', JBool False),
                               (''language'', JStr ''en-US'')],
                  rq_timeout = Some 10\<rparr>]"
  by (simp add: search_movies_def client_call_requests)

lemma network_failure_is_caught:
  assumes "get_api_key E = Returns k"
    and "net E reqs rq = NoConnection \<or> net E reqs rq = NoReply
         \<or> (\<exists>status body. net E reqs rq = Reply status body
               \<and> ((400 \<le> status \<and> status < 600) \<or> body = None))"
  shows "rq = details_request k movie_id \<Longrightarrow> fst (get_movie_details E movie_id reqs) = Returns None"
    and "rq = credits_request k movie_id \<Longrightarrow> fst (get_movie_credits E movie_id reqs) = Returns []"
    and "rq = videos_request k movie_id \<Longrightarrow> fst (get_movie_videos E movie_id reqs) = Returns []"
    and "rq = credits_request k movie_id \<Longrightarrow> fst (get_director E movie_id reqs) = Returns (JStr [])"
  using assms
  by (auto simp: get_movie_details_def get_movie_credits_def get_movie_videos_def get_director_def
      details_request_def credits_request_def videos_request_def
      get_checked_json_def requests_get_def raise_for_status_def response_json_def)

lemma get_movie_details_Returns:
  assumes "get_movie_details E movie_id reqs = (Returns r, reqs1)"
  shows "\<exists>k. get_api_key E = Returns k \<and> reqs1 = reqs @ [details_request k movie_id]"
proof -
  from assms get_api_key_cases[of E] obtain k where k: "get_api_key E = Returns k"
    by (auto simp: get_movie_details_def)
  from get_movie_details_requests[OF k, of movie_id reqs] assms k show ?thesis by simp
qed

lemma get_movie_videos_Returns:
  assumes "get_movie_videos E movie_id reqs = (Returns vs, reqs')"
  shows "\<exists>parsed. vs = sort_videos parsed"
proof -
  from assms get_api_key_cases[of E] obtain k where k: "get_api_key E = Returns k"
    by (auto simp: get_movie_videos_def)
  from assms k have "except_s
            (bind_s
               (get_checked_json E [Lit TMDB_BASE_URL, Lit ''/movie/'', Fmt movie_id, Lit ''/videos'']
                  [(''api_key'', JStr k), (''language'', JStr ''en-US'')] reqs)
               (\<lambda>data reqs. (bind (videos_of data) (\<lambda>videos. Returns (sort_videos videos)), reqs)))
            is_RequestException [] = (Returns vs, reqs')"
    by (simp add: get_movie_videos_def)
  from client_call_Returns[OF this] show ?thesis
  proof
    assume "vs = []"
    then have "vs = sort_videos []" by (simp add: sort_videos_def)
    then show ?thesis ..
  next
    assume "\<exists>data. get_checked_json E [Lit TMDB_BASE_URL, Lit ''/movie/'', Fmt movie_id, Lit ''/videos'']
                  [(''api_key'', JStr k), (''language'', JStr ''en-US'')] reqs = (Returns data, reqs')
              \<and> bind (videos_of data) (\<lambda>videos. Returns (sort_videos videos)) = Returns vs"
    then obtain data where "bind (videos_of data) (\<lambda>videos. Returns (sort_videos videos)) = Returns vs"
      by blast
    then show ?thesis by (cases "videos_of data") auto
  qed
qed

text \<open>
  C3. After the sort of \<^verbatim>\<open>get_movie_videos\<close>, every video of type Trailer stands before
  every video of another type, every Teaser stands before every video that is neither
  a Trailer nor a Teaser, and the videos of one type (and of one priority group) keep
  the order they had. The sort is the one \<^verbatim>\<open>get_movie_videos\<close> performs: when the catalogue
  answers and the loop reads the videos \<open>xs\<close> from the answer, the function returns
  \<open>sort_videos xs\<close>; and every list it returns has the Trailers first and the Teasers
  next.
\<close>

theorem sort_videos_trailers_first:
  "(\<forall>i j. i < length (sort_videos xs) \<and> j < length (sort_videos xs)
        \<and> tv_type (sort_videos xs ! i) = JStr ''Trailer''
        \<and> tv_type (sort_videos xs ! j) \<noteq> JStr ''Trailer'' \<longrightarrow> i < j)
 \<and> (\<forall>i j. i < length (sort_videos xs) \<and> j < length (sort_videos xs)
        \<and> tv_type (sort_videos xs ! i) = JStr ''Teaser''
        \<and> tv_type (sort_videos xs ! j) \<noteq> JStr ''Trailer''
        \<and> tv_type (sort_videos xs ! j) \<noteq> JStr ''Teaser'' \<longrightarrow> i < j)
 \<and> (\<forall>t. filter (\<lambda>v. tv_type v = t) (sort_videos xs) = filter (\<lambda>v. tv_type v = t) xs)
 \<and> (\<forall>k. filter (\<lambda>v. video_sort_key v = k) (sort_videos xs)
          = filter (\<lambda>v. video_sort_key v = k) xs)
 \<and> (get_api_key E = Returns key
      \<and> get_checked_json E [Lit TMDB_BASE_URL, Lit ''/movie/'', Fmt movie_id, Lit ''/videos'']
            [(''api_key'', JStr key), (''language'', JStr ''en-US'')] reqs = (Returns data, reqs')
      \<and> videos_of data = Returns xs
      \<longrightarrow> get_movie_videos E movie_id reqs = (Returns (sort_videos xs), reqs'))
 \<and> (get_movie_videos E movie_id reqs = (Returns vs, reqs') \<longrightarrow>
      (\<forall>i j. i < length vs \<and> j < length vs
          \<and> tv_type (vs ! i) = JStr ''Trailer'' \<and> tv_type (vs ! j) \<noteq> JStr ''Trailer'' \<longrightarrow> i < j)
      \<and> (\<forall>i j. i < length vs \<and> j < length vs
          \<and> tv_type (vs ! i) = JStr ''Teaser'' \<and> tv_type (vs ! j) \<noteq> JStr ''Trailer''
          \<and> tv_type (vs ! j) \<noteq> JStr ''Teaser'' \<longrightarrow> i < j))"
proof (intro conjI allI impI)
  fix i j
  assume "i < length (sort_videos xs) \<and> j < length (sort_videos xs)
        \<and> tv_type (sort_videos xs ! i) = JStr ''Trailer''
        \<and> tv_type (sort_videos xs ! j) \<noteq> JStr ''Trailer''"
  then show "i < j" by (rule trailers_first)
next
  fix i j
  assume "i < length (sort_videos xs) \<and> j < length (sort_videos xs)
        \<and> tv_type (sort_videos xs ! i) = JStr ''Teaser''
        \<and> tv_type (sort_videos xs ! j) \<noteq> JStr ''Trailer''
        \<and> tv_type (sort_videos xs ! j) \<noteq> JStr ''Teaser''"
  then show "i < j" by (rule teasers_next)
next
  fix t show "filter (\<lambda>v. tv_type v = t) (sort_videos xs) = filter (\<lambda>v. tv_type v = t) xs"
    by (rule type_stable)
next
  fix k show "filter (\<lambda>v. video_sort_key v = k) (sort_videos xs)
          = filter (\<lambda>v. video_sort_key v = k) xs"
    by (rule group_stable)
next
  assume "get_api_key E = Returns key
      \<and> get_checked_json E [Lit TMDB_BASE_URL, Lit ''/movie/'', Fmt movie_id, Lit ''/videos'']
            [(''api_key'', JStr key), (''language'', JStr ''en-US'')] reqs = (Returns data, reqs')
      \<and> videos_of data = Returns xs"
  then show "get_movie_videos E movie_id reqs = (Returns (sort_videos xs), reqs')"
    by (simp add: get_movie_videos_def)
next
  fix i j
  assume r: "get_movie_videos E movie_id reqs = (Returns vs, reqs')"
    and "i < length vs \<and> j < length vs
          \<and> tv_type (vs ! i) = JStr ''Trailer'' \<and> tv_type (vs ! j) \<noteq> JStr ''Trailer''"
  with get_movie_videos_Returns[OF r] show "i < j" by (auto intro: trailers_first)
next
  fix i j
  assume r: "get_movie_videos E movie_id reqs = (Returns vs, reqs')"
    and "i < length vs \<and> j < length vs
          \<and> tv_type (vs ! i) = JStr ''Teaser'' \<and> tv_type (vs ! j) \<noteq> JStr ''Trailer''
          \<and> tv_type (vs ! j) \<noteq> JStr ''Teaser''"
  with get_movie_videos_Returns[OF r] show "i < j" by (auto intro: teasers_next)
qed

lemma videos_of_example: "videos_of videos_json = Returns inception_videos"
  by (simp add: videos_of_def video_of_def value_defs videos_json_def inception_videos_def
      video_v1_def video_v2_def video_v3_def video_v4_def)

lemma sort_inception_videos:
  "sort_videos inception_videos = [video_v2, video_v4, video_v3, video_v1]"
  by (simp add: inception_videos_def video_v1_def video_v2_def video_v3_def video_v4_def
      sort_videos_def video_sort_key_def less_eq_prod_def)

lemma videos_answer:
  "get_checked_json catalogue_videos [Lit TMDB_BASE_URL, Lit ''/movie/'', Fmt (JInt 27205), Lit ''/videos'']
     [(''api_key'', JStr ''key''), (''language'', JStr ''en-US'')] []
     = (Returns videos_json, [videos_request ''key'' (JInt 27205)])"
  by (simp add: get_checked_json_def requests_get_def raise_for_status_def response_json_def
      catalogue_videos_def videos_request_def)

theorem sort_videos_trailers_first_witness:
  "get_movie_videos catalogue_videos (JInt 27205) []
     = (Returns [video_v2, video_v4, video_v3, video_v1], [videos_request ''key'' (JInt 27205)])
   \<and> videos_of videos_json = Returns [video_v1, video_v2, video_v3, video_v4]
   \<and> tv_type video_v4 = JStr ''Trailer'' \<and> tv_type video_v3 = JStr ''Teaser''
   \<and> tv_type video_v1 = JStr ''Featurette''
   \<and> filter (\<lambda>v. tv_type v = JStr ''Trailer'') (sort_videos inception_videos) = [video_v2, video_v4]
   \<and> filter (\<lambda>v. tv_type v = JStr ''Trailer'') inception_videos = [video_v2, video_v4]"
proof -
  note inst = sort_videos_trailers_first[of inception_videos catalogue_videos "''key''" "JInt 27205"
      "[]" videos_json "[videos_request ''key'' (JInt 27205)]"]
  have k: "get_api_key catalogue_videos = Returns ''key''"
    by (simp add: get_api_key_def catalogue_videos_def)
  from inst k videos_answer videos_of_example
  have a: "get_movie_videos catalogue_videos (JInt 27205) []
             = (Returns (sort_videos inception_videos), [videos_request ''key'' (JInt 27205)])"
    by blast
  from inst have b: "filter (\<lambda>v. tv_type v = JStr ''Trailer'') (sort_videos inception_videos)
        = filter (\<lambda>v. tv_type v = JStr ''Trailer'') inception_videos"
    by blast
  have c: "filter (\<lambda>v. tv_type v = JStr ''Trailer'') inception_videos = [video_v2, video_v4]"
    by (simp add: inception_videos_def video_v1_def video_v2_def video_v3_def video_v4_def)
  have a': "get_movie_videos catalogue_videos (JInt 27205) []
     = (Returns [video_v2, video_v4, video_v3, video_v1], [videos_request ''key'' (JInt 27205)])"
    using a by (simp only: sort_inception_videos)
  have v: "videos_of videos_json = Returns [video_v1, video_v2, video_v3, video_v4]"
    using videos_of_example by (simp only: inception_videos_def)
  have t1: "tv_type video_v4 = JStr ''Trailer''" and t2: "tv_type video_v3 = JStr ''Teaser''"
    and t3: "tv_type video_v1 = JStr ''Featurette''"
    by (simp_all add: video_v1_def video_v3_def video_v4_def)
  have d: "filter (\<lambda>v. tv_type v = JStr ''Trailer'') (sort_videos inception_videos)
             = [video_v2, video_v4]"
    using b c by (simp only:)
  from a' v t1 t2 t3 d c show ?thesis by - (intro conjI; assumption)
qed

subsection \<open>The aggregate\<close>

lemma first_trailer_Some:
  "first_trailer videos = Returns (Some t) \<Longrightarrow>
     t \<in> set videos \<and> (\<exists>site. tv_site t = JStr site \<and> lower site = ''youtube'')
     \<and> youtube_url t = Returns (Some [Lit ''https://www.youtube.com/embed/'', Fmt (tv_key t)])"
proof (induction videos)
  case Nil
  then show ?case by simp
next
  case (Cons video videos)
  show ?case
  proof (cases "youtube_url video")
    case (Returns u)
    show ?thesis
    proof (cases "truthy_fstring u")
      case True
      with Returns Cons.prems have t: "t = video" by simp
      from Returns True show ?thesis unfolding t
        by (auto simp: youtube_url_def split: json.splits if_splits)
    next
      case False
      with Returns Cons show ?thesis by simp
    qed
  next
    case (Raises e)
    with Cons.prems show ?thesis by simp
  next
    case Hangs
    with Cons.prems show ?thesis by simp
  qed
qed

lemma get_full_movie_info_None:
  "get_movie_details E movie_id reqs = (Returns None, reqs_d) \<Longrightarrow>
     get_full_movie_info E movie_id reqs = (Returns None, reqs_d)"
  by (simp add: get_full_movie_info_def)

lemma get_full_movie_info_steps:
  assumes "get_movie_details E movie_id reqs = (Returns (Some m), reqs_d)"
    and "get_movie_credits E movie_id reqs_d = (Returns cast, reqs_c)"
    and "get_movie_videos E movie_id reqs_c = (Returns videos, reqs_v)"
    and "first_trailer videos = Returns trailer"
  shows "get_full_movie_info E movie_id reqs
           = (Returns (Some \<lparr>fi_movie = m, fi_cast = cast, fi_videos = videos,
                             fi_trailer = trailer\<rparr>), reqs_v)"
  using assms by (simp add: get_full_movie_info_def)

lemma get_full_movie_info_Some:
  assumes "get_full_movie_info E movie_id reqs = (Returns (Some info), reqs_v)"
  shows "\<exists>reqs_d reqs_c.
           get_movie_details E movie_id reqs = (Returns (Some (fi_movie info)), reqs_d)
         \<and> get_movie_credits E movie_id reqs_d = (Returns (fi_cast info), reqs_c)
         \<and> get_movie_videos E movie_id reqs_c = (Returns (fi_videos info), reqs_v)
         \<and> first_trailer (fi_videos info) = Returns (fi_trailer info)"
proof -
  from bind_s_Returns[OF assms[unfolded get_full_movie_info_def]]
  obtain a reqs_d where d: "get_movie_details E movie_id reqs = (Returns a, reqs_d)"
    and a: "(case a of None \<Rightarrow> (Returns None, reqs_d)
          | Some m \<Rightarrow>
              bind_s (get_movie_credits E movie_id reqs_d)
                (\<lambda>cast reqs.
                   bind_s (get_movie_videos E movie_id reqs)
                     (\<lambda>videos reqs.
                        bind_s (first_trailer videos, reqs)
                          (\<lambda>trailer reqs.
                             (Returns (Some \<lparr>fi_movie = m, fi_cast = cast, fi_videos = videos,
                                              fi_trailer = trailer\<rparr>), reqs)))))
            = (Returns (Some info), reqs_v)"
    by blast
  from a obtain m where m: "a = Some m" by (cases a) auto
  from a[unfolded m, simplified]
  have b: "bind_s (get_movie_credits E movie_id reqs_d)
                (\<lambda>cast reqs.
                   bind_s (get_movie_videos E movie_id reqs)
                     (\<lambda>videos reqs.
                        bind_s (first_trailer videos, reqs)
                          (\<lambda>trailer reqs.
                             (Returns (Some \<lparr>fi_movie = m, fi_cast = cast, fi_videos = videos,
                                              fi_trailer = trailer\<rparr>), reqs))))
           = (Returns (Some info), reqs_v)" .
  from bind_s_Returns[OF b] obtain cast reqs_c where
    c: "get_movie_credits E movie_id reqs_d = (Returns cast, reqs_c)"
    and c': "bind_s (get_movie_videos E movie_id reqs_c)
               (\<lambda>videos reqs.
                  bind_s (first_trailer videos, reqs)
                    (\<lambda>trailer reqs.
                       (Returns (Some \<lparr>fi_movie = m, fi_cast = cast, fi_videos = videos,
                                        fi_trailer = trailer\<rparr>), reqs)))
             = (Returns (Some info), reqs_v)"
    by blast
  from bind_s_Returns[OF c'] obtain videos reqs_w where
    v: "get_movie_videos E movie_id reqs_c = (Returns videos, reqs_w)"
    and v': "bind_s (first_trailer videos, reqs_w)
               (\<lambda>trailer reqs.
                  (Returns (Some \<lparr>fi_movie = m, fi_cast = cast, fi_videos = videos,
                                   fi_trailer = trailer\<rparr>), reqs))
             = (Returns (Some info), reqs_v)"
    by blast
  from bind_s_Returns[OF v'] obtain trailer where
    t: "first_trailer videos = Returns trailer"
    and i: "info = \<lparr>fi_movie = m, fi_cast = cast, fi_videos = videos, fi_trailer = trailer\<rparr>"
    and r: "reqs_w = reqs_v"
    by auto
  from d m c v t i r show ?thesis by simp
qed

text \<open>
  C4, as the code has it. When \<^verbatim>\<open>get_movie_details\<close> returns \<^verbatim>\<open>None\<close>, \<^verbatim>\<open>get_full_movie_info\<close>
  returns \<^verbatim>\<open>None\<close> and the only request sent is the details request: none for the credits,
  none for the videos. When it returns a movie, and the credits call, the videos call and
  the scan for the trailer return in their turn, the aggregate holds this movie, these
  credits, these videos and this trailer. Conversely every aggregate the function
  returns is made of what the three calls returned for the same identifier, each call
  starting from the requests the one before left.
\<close>

theorem get_full_movie_info_short_circuit:
  "(get_movie_details E movie_id reqs = (Returns None, reqs_d) \<longrightarrow>
      get_full_movie_info E movie_id reqs = (Returns None, reqs_d)
      \<and> (\<exists>k. get_api_key E = Returns k \<and> reqs_d = reqs @ [details_request k movie_id]))
   \<and> (get_movie_details E movie_id reqs = (Returns (Some m), reqs_d)
        \<and> get_movie_credits E movie_id reqs_d = (Returns cast, reqs_c)
        \<and> get_movie_videos E movie_id reqs_c = (Returns videos, reqs_v)
        \<and> first_trailer videos = Returns trailer \<longrightarrow>
      get_full_movie_info E movie_id reqs
        = (Returns (Some \<lparr>fi_movie = m, fi_cast = cast, fi_videos = videos,
                          fi_trailer = trailer\<rparr>), reqs_v))
   \<and> (get_full_movie_info E movie_id reqs = (Returns (Some info), reqs_v) \<longrightarrow>
      (\<exists>reqs_d reqs_c.
           get_movie_details E movie_id reqs = (Returns (Some (fi_movie info)), reqs_d)
         \<and> get_movie_credits E movie_id reqs_d = (Returns (fi_cast info), reqs_c)
         \<and> get_movie_videos E movie_id reqs_c = (Returns (fi_videos info), reqs_v)
         \<and> first_trailer (fi_videos info) = Returns (fi_trailer info)))"
proof (intro conjI impI)
  assume d: "get_movie_details E movie_id reqs = (Returns None, reqs_d)"
  then show "get_full_movie_info E movie_id reqs = (Returns None, reqs_d)"
    by (rule get_full_movie_info_None)
  from get_movie_details_Returns[OF d]
  show "\<exists>k. get_api_key E = Returns k \<and> reqs_d = reqs @ [details_request k movie_id]" .
next
  assume "get_movie_details E movie_id reqs = (Returns (Some m), reqs_d)
        \<and> get_movie_credits E movie_id reqs_d = (Returns cast, reqs_c)
        \<and> get_movie_videos E movie_id reqs_c = (Returns videos, reqs_v)
        \<and> first_trailer videos = Returns trailer"
  then show "get_full_movie_info E movie_id reqs
        = (Returns (Some \<lparr>fi_movie = m, fi_cast = cast, fi_videos = videos,
                          fi_trailer = trailer\<rparr>), reqs_v)"
    by (intro get_full_movie_info_steps) auto
next
  assume "get_full_movie_info E movie_id reqs = (Returns (Some info), reqs_v)"
  then show "\<exists>reqs_d reqs_c.
           get_movie_details E movie_id reqs = (Returns (Some (fi_movie info)), reqs_d)
         \<and> get_movie_credits E movie_id reqs_d = (Returns (fi_cast info), reqs_c)
         \<and> get_movie_videos E movie_id reqs_c = (Returns (fi_videos info), reqs_v)
         \<and> first_trailer (fi_videos info) = Returns (fi_trailer info)"
    by (rule get_full_movie_info_Some)
qed

lemmas evaluation_defs =
  get_full_movie_info_def client_defs value_defs catalogue_up_def example_defs
  sort_videos_def video_sort_key_def less_eq_prod_def youtube_url_def
  lower_def lower_char_def year_def split_value_def index_def int_of_str_defs

lemma details_when_down:
  "get_movie_details catalogue_down (JInt 27205) []
     = (Returns None, [details_request ''key'' (JInt 27205)])"
  by (simp add: client_defs catalogue_down_def details_request_def)

lemma details_when_up:
  "get_movie_details catalogue_up (JInt 27205) []
     = (Returns (Some inception), [details_request ''key'' (JInt 27205)])"
  by (simp add: client_defs value_defs catalogue_up_def details_request_def example_defs)

lemma full_info_when_up:
  "get_full_movie_info catalogue_up (JInt 27205) []
     = (Returns (Some inception_info),
        [details_request ''key'' (JInt 27205), credits_request ''key'' (JInt 27205),
         videos_request ''key'' (JInt 27205)])"
  by (simp add: evaluation_defs details_request_def credits_request_def videos_request_def)

theorem get_full_movie_info_short_circuit_witness:
  "get_movie_details catalogue_down (JInt 27205) []
     = (Returns None, [details_request ''key'' (JInt 27205)])
   \<and> get_full_movie_info catalogue_down (JInt 27205) []
       = (Returns None, [details_request ''key'' (JInt 27205)])
   \<and> get_full_movie_info catalogue_up (JInt 27205) []
       = (Returns (Some inception_info),
          [details_request ''key'' (JInt 27205), credits_request ''key'' (JInt 27205),
           videos_request ''key'' (JInt 27205)])
   \<and> get_movie_details catalogue_up (JInt 27205) []
       = (Returns (Some inception), [details_request ''key'' (JInt 27205)])
   \<and> get_movie_videos catalogue_up (JInt 27205)
         [details_request ''key'' (JInt 27205), credits_request ''key'' (JInt 27205)]
       = (Returns [video_v2, video_v4, video_v3, video_v1],
          [details_request ''key'' (JInt 27205), credits_request ''key'' (JInt 27205),
           videos_request ''key'' (JInt 27205)])"
proof -
  note inst1 = get_full_movie_info_short_circuit[of catalogue_down "JInt 27205" "[]"
      "[details_request ''key'' (JInt 27205)]"]
  have a: "get_full_movie_info catalogue_down (JInt 27205) []
             = (Returns None, [details_request ''key'' (JInt 27205)])"
    using inst1 details_when_down by blast
  note inst2 = get_full_movie_info_short_circuit[where E=catalogue_up and movie_id="JInt 27205"
      and reqs="[]" and info=inception_info
      and reqs_v="[details_request ''key'' (JInt 27205), credits_request ''key'' (JInt 27205),
                  videos_request ''key'' (JInt 27205)]"]
  from inst2 full_info_when_up obtain reqs_d reqs_c where
    b: "get_movie_details catalogue_up (JInt 27205) [] = (Returns (Some (fi_movie inception_info)), reqs_d)"
    and c: "get_movie_videos catalogue_up (JInt 27205) reqs_c
              = (Returns (fi_videos inception_info),
                 [details_request ''key'' (JInt 27205), credits_request ''key'' (JInt 27205),
                  videos_request ''key'' (JInt 27205)])"
    and c': "get_movie_credits catalogue_up (JInt 27205) reqs_d = (Returns (fi_cast inception_info), reqs_c)"
    by blast
  have k: "get_api_key catalogue_up = Returns ''key''"
    by (simp add: get_api_key_def catalogue_up_def)
  from b get_movie_details_requests[OF k, of "JInt 27205" "[]"]
  have r1: "reqs_d = [details_request ''key'' (JInt 27205)]" by simp
  from c' get_movie_credits_requests[OF k, of "JInt 27205" reqs_d] r1
  have r2: "reqs_c = [details_request ''key'' (JInt 27205), credits_request ''key'' (JInt 27205)]"
    by simp
  from c r2 have c2: "get_movie_videos catalogue_up (JInt 27205)
         [details_request ''key'' (JInt 27205), credits_request ''key'' (JInt 27205)]
       = (Returns [video_v2, video_v4, video_v3, video_v1],
          [details_request ''key'' (JInt 27205), credits_request ''key'' (JInt 27205),
           videos_request ''key'' (JInt 27205)])"
    by (simp add: inception_info_def)
  from details_when_down a full_info_when_up details_when_up c2 show ?thesis
    by - (intro conjI; assumption)
qed

text \<open>
  C4 as the spec words it, with an aggregate whenever the details are present, fails on
  a credits answer whose cast is \<^verbatim>\<open>null\<close>: the details are present, the slice of \<^verbatim>\<open>None\<close>
  raises \<^verbatim>\<open>TypeError\<close>, the handler for \<^verbatim>\<open>RequestException\<close> lets it through, and
  \<^verbatim>\<open>get_full_movie_info\<close> raises instead of returning.
\<close>

theorem get_full_movie_info_raises_counterexample:
  "get_movie_details catalogue_null_cast (JInt 27205) []
     = (Returns (Some inception), [details_request ''key'' (JInt 27205)])
   \<and> get_movie_credits catalogue_null_cast (JInt 27205) [details_request ''key'' (JInt 27205)]
       = (Raises TypeError, [details_request ''key'' (JInt 27205), credits_request ''key'' (JInt 27205)])
   \<and> get_full_movie_info catalogue_null_cast (JInt 27205) []
       = (Raises TypeError, [details_request ''key'' (JInt 27205), credits_request ''key'' (JInt 27205)])"
  by (simp add: get_full_movie_info_def client_defs value_defs catalogue_null_cast_def
      details_request_def credits_request_def example_defs)

text \<open>
  C10. Whenever \<^verbatim>\<open>get_full_movie_info\<close> returns an aggregate with a trailer, the trailer's
  site is YouTube, its \<^verbatim>\<open>youtube_url\<close> is the embed URL of its key, and the video link
  either import computes from it is this URL, never \<^verbatim>\<open>None\<close>.
\<close>

theorem trailer_has_playback_url:
  assumes "get_full_movie_info E movie_id reqs = (Returns (Some info), reqs')"
    and "fi_trailer info = Some t"
  shows "youtube_url t = Returns (Some [Lit ''https://www.youtube.com/embed/'', Fmt (tv_key t)])
     \<and> (\<exists>site. tv_site t = JStr site \<and> lower site = ''youtube'')
     \<and> featured_video_link (fi_trailer info)
         = Returns (Some [Lit ''https://www.youtube.com/embed/'', Fmt (tv_key t)])
     \<and> tmdb_video_link (fi_trailer info)
         = Returns (Some [Lit ''https://www.youtube.com/embed/'', Fmt (tv_key t)])"
proof -
  from get_full_movie_info_Some[OF assms(1)] assms(2)
  have ft: "first_trailer (fi_videos info) = Returns (Some t)" by auto
  from first_trailer_Some[OF ft] show ?thesis
    by (auto simp: featured_video_link_def tmdb_video_link_def assms(2))
qed

theorem trailer_has_playback_url_witness:
  "fst (get_full_movie_info catalogue_up (JInt 27205) []) = Returns (Some inception_info)
   \<and> fi_trailer inception_info = Some video_v4
   \<and> youtube_url video_v4 = Returns (Some [Lit ''https://www.youtube.com/embed/'', Fmt (JStr ''k4'')])
   \<and> featured_video_link (fi_trailer inception_info)
       = Returns (Some [Lit ''https://www.youtube.com/embed/'', Fmt (JStr ''k4'')])"
proof -
  have b: "fi_trailer inception_info = Some video_v4"
    by (simp add: inception_info_def)
  from trailer_has_playback_url[OF full_info_when_up b] full_info_when_up b show ?thesis
    by (simp add: video_v4_def)
qed

section \<open>Properties of the routes\<close>

lemmas route_defs =
  login_required_def with_requests_def redirect_url_for_def url_for_def endpoints_def
  session_get_def session_subscript_def flash_def

lemmas state_defs = anonymous_def signed_in_def alice_def

subsection \<open>Lookups of absent records\<close>

lemma movie_absent:
  "find_one_movie (db st) mid = None \<Longrightarrow> movie mid st = (Raises TypeError, st)"
  by (simp add: movie_def)

text \<open>
  C1. The movie page of an identifier that no stored movie has ends in a \<^verbatim>\<open>TypeError\<close>
  instead of a not-found page; \<^verbatim>\<open>rate_movie\<close> without a rating ends in a \<^verbatim>\<open>TypeError\<close>;
  and \<^verbatim>\<open>add_featured\<close>, after it has stored the movie, ends in a \<^verbatim>\<open>BuildError\<close> because no
  route is called \<^verbatim>\<open>watchlist\<close>.
\<close>

theorem movie_route_raises:
  "movie ''m404'' anonymous = (Raises TypeError, anonymous)
   \<and> fst (rate_movie ''m404'' None signed_in) = Raises TypeError
   \<and> fst (add_featured catalogue_up ''m1'' 27205 signed_in) = Raises BuildError
   \<and> map mv_id (db_movie (db (snd (add_featured catalogue_up ''m1'' 27205 signed_in)))) = [''m1'']"
  by (simp add: movie_def rate_movie_def add_featured_def find_one_movie_def int_of_optional_def
      route_defs state_defs evaluation_defs insert_one_movie_def push_movie_def
      featured_video_link_def imported_def)

subsection \<open>Catalogue calls outside the guarded client functions\<close>

text \<open>
  C2. With the catalogue unreachable, \<^verbatim>\<open>fetch_featured_movies\<close> lets the
  \<^verbatim>\<open>ConnectionError\<close> through; its request and the one of \<^verbatim>\<open>get_featured_indian_movies\<close>
  carry no timeout, so the latter, and the home page with it, never returns when the
  catalogue does not answer, where \<^verbatim>\<open>get_movie_details\<close> gives up and returns \<^verbatim>\<open>None\<close>.
\<close>

theorem featured_calls_unguarded:
  "fetch_featured_movies catalogue_down []
     = (Raises (RequestException ConnectionError),
        [\<lparr>rq_url = [Lit ''https://api.themoviedb.org/3/movie/now_playing?api_key='', Lit ''key'',
                    Lit ''&language=en-US&page=1''],
          rq_params = [], rq_timeout = None\<rparr>])
   \<and> fst (get_featured_indian_movies catalogue_silent 12 []) = Hangs
   \<and> fst (home catalogue_silent anonymous) = Hangs
   \<and> fst (get_movie_details catalogue_silent (JInt 27205) []) = Returns None"
  by (simp add: fetch_featured_movies_def get_featured_indian_movies_def home_def
      catalogue_down_def catalogue_silent_def client_defs with_requests_def)

subsection \<open>Importing a catalogue movie\<close>

lemma find_fresh_append:
  "i \<notin> set (map mv_id xs) \<Longrightarrow>
     find (\<lambda>m. mv_id m = i) (xs @ [m']) = (if mv_id m' = i then Some m' else None)"
  by (induction xs) auto

lemma find_fresh: "i \<notin> set (map mv_id xs) \<Longrightarrow> find (\<lambda>m. mv_id m = i) xs = None"
  by (induction xs) auto

lemma video_links_of_info:
  assumes "get_full_movie_info E movie_id reqs = (Returns (Some info), reqs')"
  shows "featured_video_link (fi_trailer info)
           = Returns (Some (case fi_trailer info of
                              None \<Rightarrow> []
                            | Some t \<Rightarrow> [Lit ''https://www.youtube.com/embed/'', Fmt (tv_key t)]))"
    and "tmdb_video_link (fi_trailer info)
           = Returns (Some (case fi_trailer info of
                              None \<Rightarrow> []
                            | Some t \<Rightarrow> [Lit ''https://www.youtube.com/embed/'', Fmt (tv_key t)]))"
proof -
  from get_full_movie_info_Some[OF assms]
  have ft: "first_trailer (fi_videos info) = Returns (fi_trailer info)" by blast
  show "featured_video_link (fi_trailer info)
           = Returns (Some (case fi_trailer info of
                              None \<Rightarrow> []
                            | Some t \<Rightarrow> [Lit ''https://www.youtube.com/embed/'', Fmt (tv_key t)]))"
  proof (cases "fi_trailer info")
    case None
    then show ?thesis by (simp add: featured_video_link_def)
  next
    case (Some t)
    with ft first_trailer_Some[of "fi_videos info" t] show ?thesis
      by (simp add: featured_video_link_def)
  qed
  show "tmdb_video_link (fi_trailer info)
           = Returns (Some (case fi_trailer info of
                              None \<Rightarrow> []
                            | Some t \<Rightarrow> [Lit ''https://www.youtube.com/embed/'', Fmt (tv_key t)]))"
  proof (cases "fi_trailer info")
    case None
    then show ?thesis by (simp add: tmdb_video_link_def)
  next
    case (Some t)
    with ft first_trailer_Some[of "fi_videos info" t] show ?thesis
      by (simp add: tmdb_video_link_def)
  qed
qed

lemma add_featured_stores:
  assumes "session_get (session st) ''email'' \<noteq> None"
    and "get_full_movie_info E (JInt movie_id) (requests st) = (Returns (Some info), reqs_i)"
    and "get_director E (JInt movie_id) reqs_i = (Returns director, reqs_d)"
    and "year (fi_movie info) = Returns y"
    and "uuid \<notin> set (map mv_id (db_movie (db st)))"
  shows "db_movie (db (snd (add_featured E uuid movie_id st)))
           = db_movie (db st)
             @ [imported uuid info director y
                  (Some (case fi_trailer info of
                           None \<Rightarrow> []
                         | Some t \<Rightarrow> [Lit ''https://www.youtube.com/embed/'', Fmt (tv_key t)]))]"
  using assms video_links_of_info(1)[OF assms(2)]
  by (cases "session_subscript (session st) ''user_id''")
     (simp_all add: add_featured_def login_required_def with_requests_def insert_one_movie_def
        push_movie_def flash_def imported_def)

lemma add_from_tmdb_stores:
  assumes "session_get (session st) ''email'' \<noteq> None"
    and "get_full_movie_info E (JInt movie_id) (requests st) = (Returns (Some info), reqs_i)"
    and "get_director E (JInt movie_id) reqs_i = (Returns director, reqs_d)"
    and "year (fi_movie info) = Returns y"
    and "uuid \<notin> set (map mv_id (db_movie (db st)))"
  shows "db_movie (db (snd (add_from_tmdb E uuid movie_id st)))
           = db_movie (db st)
             @ [imported uuid info director y
                  (Some (case fi_trailer info of
                           None \<Rightarrow> []
                         | Some t \<Rightarrow> [Lit ''https://www.youtube.com/embed/'', Fmt (tv_key t)]))]"
  using assms video_links_of_info(2)[OF assms(2)]
  by (cases "session_subscript (session st) ''user_id''")
     (simp_all add: add_from_tmdb_def login_required_def with_requests_def insert_one_movie_def
        push_movie_def flash_def imported_def)

text \<open>What either import leaves in the movie collection: nothing new, or the one record.\<close>

lemma add_featured_movies:
  assumes "uuid \<notin> set (map mv_id (db_movie (db st)))"
  shows "db_movie (db (snd (add_featured E uuid movie_id st))) = db_movie (db st)
     \<or> (\<exists>info reqs_i director reqs_d y.
           get_full_movie_info E (JInt movie_id) (requests st) = (Returns (Some info), reqs_i)
         \<and> get_director E (JInt movie_id) reqs_i = (Returns director, reqs_d)
         \<and> year (fi_movie info) = Returns y
         \<and> db_movie (db (snd (add_featured E uuid movie_id st)))
             = db_movie (db st)
               @ [imported uuid info director y
                    (Some (case fi_trailer info of
                             None \<Rightarrow> []
                           | Some t \<Rightarrow> [Lit ''https://www.youtube.com/embed/'', Fmt (tv_key t)]))])"
proof (cases "session_get (session st) ''email'' = None")
  case True
  then show ?thesis by (simp add: add_featured_def login_required_def)
next
  case logged: False
  obtain r1 reqs_i where g: "get_full_movie_info E (JInt movie_id) (requests st) = (r1, reqs_i)"
    by (cases "get_full_movie_info E (JInt movie_id) (requests st)")
  show ?thesis
  proof (cases "\<exists>info. r1 = Returns (Some info)")
    case False
    with logged g have "db_movie (db (snd (add_featured E uuid movie_id st))) = db_movie (db st)"
      by (cases r1; cases "case r1 of Returns x \<Rightarrow> x | _ \<Rightarrow> None")
         (auto simp: add_featured_def login_required_def with_requests_def flash_def)
    then show ?thesis ..
  next
    case True
    then obtain info where i: "r1 = Returns (Some info)" ..
    obtain r2 reqs_d where d: "get_director E (JInt movie_id) reqs_i = (r2, reqs_d)"
      by (cases "get_director E (JInt movie_id) reqs_i")
    note link = video_links_of_info(1)[OF g[unfolded i]]
    show ?thesis
    proof (cases "\<exists>director y. r2 = Returns director \<and> year (fi_movie info) = Returns y")
      case False
      with logged g i d link
      have "db_movie (db (snd (add_featured E uuid movie_id st))) = db_movie (db st)"
        by (cases r2; cases "year (fi_movie info)")
           (auto simp: add_featured_def login_required_def with_requests_def)
      then show ?thesis ..
    next
      case True
      then obtain director y where "r2 = Returns director" "year (fi_movie info) = Returns y"
        by blast
      with add_featured_stores[OF logged g[unfolded i] _ _ assms, of director reqs_d y] g i d
      show ?thesis by blast
    qed
  qed
qed

lemma add_from_tmdb_movies:
  assumes "uuid \<notin> set (map mv_id (db_movie (db st)))"
  shows "db_movie (db (snd (add_from_tmdb E uuid movie_id st))) = db_movie (db st)
     \<or> (\<exists>info reqs_i director reqs_d y.
           get_full_movie_info E (JInt movie_id) (requests st) = (Returns (Some info), reqs_i)
         \<and> get_director E (JInt movie_id) reqs_i = (Returns director, reqs_d)
         \<and> year (fi_movie info) = Returns y
         \<and> db_movie (db (snd (add_from_tmdb E uuid movie_id st)))
             = db_movie (db st)
               @ [imported uuid info director y
                    (Some (case fi_trailer info of
                             None \<Rightarrow> []
                           | Some t \<Rightarrow> [Lit ''https://www.youtube.com/embed/'', Fmt (tv_key t)]))])"
proof (cases "session_get (session st) ''email'' = None")
  case True
  then show ?thesis by (simp add: add_from_tmdb_def login_required_def)
next
  case logged: False
  obtain r1 reqs_i where g: "get_full_movie_info E (JInt movie_id) (requests st) = (r1, reqs_i)"
    by (cases "get_full_movie_info E (JInt movie_id) (requests st)")
  show ?thesis
  proof (cases "\<exists>info. r1 = Returns (Some info)")
    case False
    with logged g have "db_movie (db (snd (add_from_tmdb E uuid movie_id st))) = db_movie (db st)"
      by (cases r1; cases "case r1 of Returns x \<Rightarrow> x | _ \<Rightarrow> None")
         (auto simp: add_from_tmdb_def login_required_def with_requests_def flash_def)
    then show ?thesis ..
  next
    case True
    then obtain info where i: "r1 = Returns (Some info)" ..
    obtain r2 reqs_d where d: "get_director E (JInt movie_id) reqs_i = (r2, reqs_d)"
      by (cases "get_director E (JInt movie_id) reqs_i")
    note link = video_links_of_info(2)[OF g[unfolded i]]
    show ?thesis
    proof (cases "\<exists>director y. r2 = Returns director \<and> year (fi_movie info) = Returns y")
      case False
      with logged g i d link
      have "db_movie (db (snd (add_from_tmdb E uuid movie_id st))) = db_movie (db st)"
        by (cases r2; cases "year (fi_movie info)")
           (auto simp: add_from_tmdb_def login_required_def with_requests_def)
      then show ?thesis ..
    next
      case True
      then obtain director y where "r2 = Returns director" "year (fi_movie info) = Returns y"
        by blast
      with add_from_tmdb_stores[OF logged g[unfolded i] _ _ assms, of director reqs_d y] g i d
      show ?thesis by blast
    qed
  qed
qed

lemma round_trip_imported:
  assumes "get_director E (JInt movie_id) reqs_i = (Returns director, reqs_d)"
    and "year (fi_movie info) = Returns y"
  shows "round_trip E movie_id reqs_i info
           (imported uuid info director y
              (Some (case fi_trailer info of
                       None \<Rightarrow> []
                     | Some t \<Rightarrow> [Lit ''https://www.youtube.com/embed/'', Fmt (tv_key t)])))"
  using assms by (simp add: round_trip_def imported_def)

text \<open>
  C6. Take an identifier no stored movie has. Whenever the movie read back under it
  after \<^verbatim>\<open>add_from_tmdb\<close> or \<^verbatim>\<open>add_featured\<close> is there, the catalogue's aggregate was present
  and the stored movie has the aggregate's title, the director the lookup returned, the
  display year, the names of the cast, the genre names, the overview, and as video link
  the embed URL of the selected trailer or the empty string. And the movie is there
  whenever a signed-in user starts the import, the aggregate is present and the director
  lookup and the display year return.
\<close>

theorem import_round_trip:
  assumes "uuid \<notin> set (map mv_id (db_movie (db st)))"
  shows "(find_one_movie (db (snd (add_from_tmdb E uuid movie_id st))) uuid = Some stored \<longrightarrow>
            (\<exists>info reqs_i.
                get_full_movie_info E (JInt movie_id) (requests st) = (Returns (Some info), reqs_i)
              \<and> round_trip E movie_id reqs_i info stored))
     \<and> (find_one_movie (db (snd (add_featured E uuid movie_id st))) uuid = Some stored \<longrightarrow>
            (\<exists>info reqs_i.
                get_full_movie_info E (JInt movie_id) (requests st) = (Returns (Some info), reqs_i)
              \<and> round_trip E movie_id reqs_i info stored))
     \<and> (session_get (session st) ''email'' \<noteq> None
          \<and> get_full_movie_info E (JInt movie_id) (requests st) = (Returns (Some info), reqs_i)
          \<and> get_director E (JInt movie_id) reqs_i = (Returns director, reqs_d)
          \<and> year (fi_movie info) = Returns y \<longrightarrow>
            (\<exists>a. find_one_movie (db (snd (add_from_tmdb E uuid movie_id st))) uuid = Some a
                 \<and> round_trip E movie_id reqs_i info a)
          \<and> (\<exists>b. find_one_movie (db (snd (add_featured E uuid movie_id st))) uuid = Some b
                 \<and> round_trip E movie_id reqs_i info b))"
proof (intro conjI impI)
  assume f: "find_one_movie (db (snd (add_from_tmdb E uuid movie_id st))) uuid = Some stored"
  from add_from_tmdb_movies[OF assms, of E movie_id] f find_fresh[OF assms]
  obtain info reqs_i director reqs_d y where
    g: "get_full_movie_info E (JInt movie_id) (requests st) = (Returns (Some info), reqs_i)"
    and d: "get_director E (JInt movie_id) reqs_i = (Returns director, reqs_d)"
    and y: "year (fi_movie info) = Returns y"
    and m: "db_movie (db (snd (add_from_tmdb E uuid movie_id st)))
             = db_movie (db st)
               @ [imported uuid info director y
                    (Some (case fi_trailer info of
                             None \<Rightarrow> []
                           | Some t \<Rightarrow> [Lit ''https://www.youtube.com/embed/'', Fmt (tv_key t)]))]"
    by (auto simp: find_one_movie_def)
  from f m assms have "stored = imported uuid info director y
                    (Some (case fi_trailer info of
                             None \<Rightarrow> []
                           | Some t \<Rightarrow> [Lit ''https://www.youtube.com/embed/'', Fmt (tv_key t)]))"
    by (simp add: find_one_movie_def find_fresh_append imported_def)
  with round_trip_imported[OF d y] g
  show "\<exists>info reqs_i.
          get_full_movie_info E (JInt movie_id) (requests st) = (Returns (Some info), reqs_i)
        \<and> round_trip E movie_id reqs_i info stored"
    by blast
next
  assume f: "find_one_movie (db (snd (add_featured E uuid movie_id st))) uuid = Some stored"
  from add_featured_movies[OF assms, of E movie_id] f find_fresh[OF assms]
  obtain info reqs_i director reqs_d y where
    g: "get_full_movie_info E (JInt movie_id) (requests st) = (Returns (Some info), reqs_i)"
    and d: "get_director E (JInt movie_id) reqs_i = (Returns director, reqs_d)"
    and y: "year (fi_movie info) = Returns y"
    and m: "db_movie (db (snd (add_featured E uuid movie_id st)))
             = db_movie (db st)
               @ [imported uuid info director y
                    (Some (case fi_trailer info of
                             None \<Rightarrow> []
                           | Some t \<Rightarrow> [Lit ''https://www.youtube.com/embed/'', Fmt (tv_key t)]))]"
    by (auto simp: find_one_movie_def)
  from f m assms have "stored = imported uuid info director y
                    (Some (case fi_trailer info of
                             None \<Rightarrow> []
                           | Some t \<Rightarrow> [Lit ''https://www.youtube.com/embed/'', Fmt (tv_key t)]))"
    by (simp add: find_one_movie_def find_fresh_append imported_def)
  with round_trip_imported[OF d y] g
  show "\<exists>info reqs_i.
          get_full_movie_info E (JInt movie_id) (requests st) = (Returns (Some info), reqs_i)
        \<and> round_trip E movie_id reqs_i info stored"
    by blast
next
  assume h: "session_get (session st) ''email'' \<noteq> None
          \<and> get_full_movie_info E (JInt movie_id) (requests st) = (Returns (Some info), reqs_i)
          \<and> get_director E (JInt movie_id) reqs_i = (Returns director, reqs_d)
          \<and> year (fi_movie info) = Returns y"
  then have logged: "session_get (session st) ''email'' \<noteq> None"
    and g: "get_full_movie_info E (JInt movie_id) (requests st) = (Returns (Some info), reqs_i)"
    and d: "get_director E (JInt movie_id) reqs_i = (Returns director, reqs_d)"
    and y: "year (fi_movie info) = Returns y"
    by auto
  from add_from_tmdb_stores[OF logged g d y assms] assms round_trip_imported[OF d y, of uuid]
  show "\<exists>a. find_one_movie (db (snd (add_from_tmdb E uuid movie_id st))) uuid = Some a
           \<and> round_trip E movie_id reqs_i info a"
    by (simp add: find_one_movie_def find_fresh_append imported_def)
  from add_featured_stores[OF logged g d y assms] assms round_trip_imported[OF d y, of uuid]
  show "\<exists>b. find_one_movie (db (snd (add_featured E uuid movie_id st))) uuid = Some b
           \<and> round_trip E movie_id reqs_i info b"
    by (simp add: find_one_movie_def find_fresh_append imported_def)
qed

lemma director_after_full_info:
  "get_director catalogue_up (JInt 27205)
     [details_request ''key'' (JInt 27205), credits_request ''key'' (JInt 27205),
      videos_request ''key'' (JInt 27205)]
   = (Returns (JStr ''Christopher Nolan''),
      [details_request ''key'' (JInt 27205), credits_request ''key'' (JInt 27205),
       videos_request ''key'' (JInt 27205), credits_request ''key'' (JInt 27205)])"
  by (simp add: evaluation_defs first_director.simps credits_request_def)

lemma year_inception: "year inception = Returns 2010"
  by (simp add: evaluation_defs)

theorem import_round_trip_witness:
  "''m1'' \<notin> set (map mv_id (db_movie (db signed_in)))
   \<and> session_get (session signed_in) ''email'' = Some ''alice@example.org''
   \<and> get_full_movie_info catalogue_up (JInt 27205) (requests signed_in)
       = (Returns (Some inception_info),
          [details_request ''key'' (JInt 27205), credits_request ''key'' (JInt 27205),
           videos_request ''key'' (JInt 27205)])
   \<and> map_option mv_title (find_one_movie (db (snd (add_featured catalogue_up ''m1'' 27205 signed_in))) ''m1'')
       = Some (JStr ''Inception'')
   \<and> map_option mv_director (find_one_movie (db (snd (add_featured catalogue_up ''m1'' 27205 signed_in))) ''m1'')
       = Some (JStr ''Christopher Nolan'')
   \<and> map_option mv_year (find_one_movie (db (snd (add_featured catalogue_up ''m1'' 27205 signed_in))) ''m1'')
       = Some 2010
   \<and> map_option mv_cast (find_one_movie (db (snd (add_featured catalogue_up ''m1'' 27205 signed_in))) ''m1'')
       = Some [JStr ''Leonardo DiCaprio'']
   \<and> map_option mv_video_link (find_one_movie (db (snd (add_from_tmdb catalogue_up ''m1'' 27205 signed_in))) ''m1'')
       = Some (Some [Lit ''https://www.youtube.com/embed/'', Fmt (JStr ''k4'')])"
proof -
  let ?reqs = "[details_request ''key'' (JInt 27205), credits_request ''key'' (JInt 27205),
                videos_request ''key'' (JInt 27205)]"
  have e: "session_get (session signed_in) ''email'' = Some ''alice@example.org''"
    by (simp add: session_get_def signed_in_def)
  have r: "requests signed_in = []" by (simp add: signed_in_def)
  have i: "get_full_movie_info catalogue_up (JInt 27205) (requests signed_in)
             = (Returns (Some inception_info), ?reqs)"
    using full_info_when_up r by simp
  have f: "''m1'' \<notin> set (map mv_id (db_movie (db signed_in)))" by (simp add: signed_in_def)
  have y: "year (fi_movie inception_info) = Returns 2010"
    using year_inception by (simp add: inception_info_def)
  from e have e': "session_get (session signed_in) ''email'' \<noteq> None" by simp
  from import_round_trip[OF f, where E=catalogue_up and movie_id=27205 and info=inception_info
      and reqs_i="?reqs" and director="JStr ''Christopher Nolan''" and y=2010]
    e' i director_after_full_info y
  obtain s1 s2 where
    s1: "find_one_movie (db (snd (add_from_tmdb catalogue_up ''m1'' 27205 signed_in))) ''m1'' = Some s1"
      "round_trip catalogue_up 27205 ?reqs inception_info s1"
    and s2: "find_one_movie (db (snd (add_featured catalogue_up ''m1'' 27205 signed_in))) ''m1'' = Some s2"
      "round_trip catalogue_up 27205 ?reqs inception_info s2"
    by blast
  from s1(2) s2(2) director_after_full_info y
  have "mv_title s2 = JStr ''Inception''" "mv_director s2 = JStr ''Christopher Nolan''"
    "mv_year s2 = 2010" "mv_cast s2 = [JStr ''Leonardo DiCaprio'']"
    "mv_video_link s1 = Some [Lit ''https://www.youtube.com/embed/'', Fmt (JStr ''k4'')]"
    by (simp_all add: round_trip_def inception_info_def inception_def video_v4_def)
  with s1(1) s2(1) have
    "map_option mv_title (find_one_movie (db (snd (add_featured catalogue_up ''m1'' 27205 signed_in))) ''m1'')
       = Some (JStr ''Inception'')"
    "map_option mv_director (find_one_movie (db (snd (add_featured catalogue_up ''m1'' 27205 signed_in))) ''m1'')
       = Some (JStr ''Christopher Nolan'')"
    "map_option mv_year (find_one_movie (db (snd (add_featured catalogue_up ''m1'' 27205 signed_in))) ''m1'')
       = Some 2010"
    "map_option mv_cast (find_one_movie (db (snd (add_featured catalogue_up ''m1'' 27205 signed_in))) ''m1'')
       = Some [JStr ''Leonardo DiCaprio'']"
    "map_option mv_video_link (find_one_movie (db (snd (add_from_tmdb catalogue_up ''m1'' 27205 signed_in))) ''m1'')
       = Some (Some [Lit ''https://www.youtube.com/embed/'', Fmt (JStr ''k4'')])"
    by simp_all
  with f e i show ?thesis by - (intro conjI; assumption)
qed

subsection \<open>Signing in\<close>

text \<open>
  C7. When no user has the submitted email, or the user found has a password hash the
  submitted password does not verify against, \<^verbatim>\<open>login\<close> leaves the session and the store
  as they were: no \<^verbatim>\<open>user_id\<close>, no \<^verbatim>\<open>email\<close> is bound. From an anonymous session with a
  validated form it flashes the invalid-credentials message and shows the login page
  again (by redirect when the email is unknown, by rendering it when the password is
  wrong).
\<close>

theorem login_failure_keeps_session:
  assumes "find_one_user_by_email (db st) email = None
     \<or> (\<exists>user. find_one_user_by_email (db st) email = Some user
            \<and> \<not> verify password (us_password user))"
  shows "session (snd (login verify validate_on_submit email password st)) = session st
     \<and> db (snd (login verify validate_on_submit email password st)) = db st
     \<and> (\<not> truthy (session_get (session st) ''email'') \<and> validate_on_submit \<longrightarrow>
          flashes (snd (login verify validate_on_submit email password st))
            = flashes st @ [(''danger'', [Lit ''Login credins=tials not correct''])]
          \<and> (fst (login verify validate_on_submit email password st)
               = Returns (Redirect ''login'' [])
             \<or> fst (login verify validate_on_submit email password st)
               = Returns (Render ''login.html'')))"
  using assms by (auto simp: login_def flash_def redirect_url_for_def url_for_def endpoints_def)

theorem login_failure_keeps_session_witness:
  "find_one_user_by_email (db anonymous) ''alice@example.org'' = Some alice
   \<and> \<not> toy_verify ''guess'' (us_password alice)
   \<and> \<not> truthy (session_get (session anonymous) ''email'')
   \<and> session (snd (login toy_verify True ''alice@example.org'' ''guess'' anonymous)) = Map.empty
   \<and> flashes (snd (login toy_verify True ''alice@example.org'' ''guess'' anonymous))
       = [(''danger'', [Lit ''Login credins=tials not correct''])]
   \<and> find_one_user_by_email (db anonymous) ''bob@example.org'' = None
   \<and> session (snd (login toy_verify True ''bob@example.org'' ''secret'' anonymous)) = Map.empty"
proof -
  have a: "find_one_user_by_email (db anonymous) ''alice@example.org'' = Some alice"
    and b: "\<not> toy_verify ''guess'' (us_password alice)"
    and c: "find_one_user_by_email (db anonymous) ''bob@example.org'' = None"
    and d: "\<not> truthy (session_get (session anonymous) ''email'')"
    by (simp_all add: find_one_user_by_email_def session_get_def state_defs toy_verify_def
        toy_hash_def)
  from a b have h1: "find_one_user_by_email (db anonymous) ''alice@example.org'' = None
     \<or> (\<exists>user. find_one_user_by_email (db anonymous) ''alice@example.org'' = Some user
            \<and> \<not> toy_verify ''guess'' (us_password user))"
    by simp
  from c have h2: "find_one_user_by_email (db anonymous) ''bob@example.org'' = None
     \<or> (\<exists>user. find_one_user_by_email (db anonymous) ''bob@example.org'' = Some user
            \<and> \<not> toy_verify ''secret'' (us_password user))"
    by simp
  have s: "session anonymous = Map.empty" "flashes anonymous = []"
    by (simp_all add: anonymous_def)
  from login_failure_keeps_session[of anonymous "''alice@example.org''" toy_verify "''guess''" True]
    login_failure_keeps_session[of anonymous "''bob@example.org''" toy_verify "''secret''" True]
    h1 h2 a b c d s
  show ?thesis by simp
qed

subsection \<open>The theme\<close>

text \<open>
  C8, as the code has it. Two calls of \<^verbatim>\<open>toggle_theme\<close> return the theme to its value when
  that value was \<^verbatim>\<open>dark\<close> or \<^verbatim>\<open>light\<close>; from any other value, an unset theme included, they
  leave \<^verbatim>\<open>light\<close>. They change no other key. A \<^verbatim>\<open>logout\<close> afterwards leaves a session whose
  only key is the theme, with the value it had, and no flashed message.
\<close>

theorem toggle_theme_twice:
  "(session_get (session st) ''theme'' = Some ''dark''
      \<or> session_get (session st) ''theme'' = Some ''light''
      \<longrightarrow> session_get (session (snd (toggle_theme p2 (snd (toggle_theme p1 st))))) ''theme''
            = session_get (session st) ''theme'')
   \<and> (session_get (session st) ''theme'' \<noteq> Some ''dark''
      \<longrightarrow> session_get (session (snd (toggle_theme p2 (snd (toggle_theme p1 st))))) ''theme''
            = Some ''light'')
   \<and> (\<forall>k. k \<noteq> ''theme'' \<longrightarrow>
          session (snd (toggle_theme p2 (snd (toggle_theme p1 st)))) k = session st k)
   \<and> session (snd (logout (snd (toggle_theme p2 (snd (toggle_theme p1 st))))))
       = [''theme'' \<mapsto> session_get (session (snd (toggle_theme p2 (snd (toggle_theme p1 st))))) ''theme'']
   \<and> flashes (snd (logout (snd (toggle_theme p2 (snd (toggle_theme p1 st)))))) = []
   \<and> fst (logout (snd (toggle_theme p2 (snd (toggle_theme p1 st))))) = Returns (Redirect ''login'' [])"
  by (auto simp: toggle_theme_def logout_def session_get_def Let_def redirect_url_for_def
      url_for_def endpoints_def)

theorem toggle_theme_twice_witness:
  "session_get (session dark_session) ''theme'' = Some ''dark''
   \<and> session_get (session (snd (toggle_theme (Some ''/'') (snd (toggle_theme (Some ''/'') dark_session))))) ''theme''
       = Some ''dark''
   \<and> session (snd (logout (snd (toggle_theme (Some ''/'') (snd (toggle_theme (Some ''/'') dark_session))))))
       = [''theme'' \<mapsto> Some ''dark'']
   \<and> session_get (session anonymous) ''theme'' \<noteq> Some ''dark''
   \<and> session_get (session (snd (toggle_theme (Some ''/'') (snd (toggle_theme (Some ''/'') anonymous))))) ''theme''
       = Some ''light''"
proof -
  have a: "session_get (session dark_session) ''theme'' = Some ''dark''"
    and b: "session_get (session anonymous) ''theme'' \<noteq> Some ''dark''"
    by (simp_all add: dark_session_def session_get_def state_defs)
  from toggle_theme_twice[of dark_session "Some ''/''" "Some ''/''"]
    toggle_theme_twice[of anonymous "Some ''/''" "Some ''/''"] a b
  show ?thesis by simp
qed

text \<open>
  C8 as the spec words it, for every session, fails on a session that has no theme yet:
  two toggles leave \<^verbatim>\<open>light\<close>, not the unset theme it started from.
\<close>

theorem toggle_theme_twice_counterexample:
  "session_get (session anonymous) ''theme'' = None
   \<and> session_get (session (snd (toggle_theme (Some ''/'') (snd (toggle_theme (Some ''/'') anonymous))))) ''theme''
       = Some ''light''"
  by (simp add: toggle_theme_def session_get_def anonymous_def)

subsection \<open>Registration\<close>




end
